theory Spec2Isabelle
  imports Main
begin

section \<open>Request strings: \<open>compactQueryString\<close>\<close>

text \<open>
  Go strings are byte sequences, read as UTF-8 by \<open>strings.TrimSpace\<close> and by the
  \<open>regexp\<close> package. A \<open>string\<close> here is the list of bytes.

  \<open>strings.TrimSpace\<close> removes leading and trailing white space "as defined by Unicode"
  (\<open>unicode.IsSpace\<close>): the six ASCII characters tab, line feed, vertical tab, form feed,
  carriage return and space, and the code points U+0085, U+00A0, U+1680, U+2000 to U+200A,
  U+2028, U+2029, U+202F, U+205F and U+3000. \<open>asciiSpace\<close> is the ASCII part of that
  table; \<open>white_space_runes\<close> lists the UTF-8 encoding of every such code point. No other
  byte sequence decodes to one of them (Go rejects overlong encodings, and an undecodable
  byte is U+FFFD, which is not white space).
\<close>

definition asciiSpace :: "char \<Rightarrow> bool" where
  "asciiSpace c = (c \<in> set [CHR 0x09, CHR 0x0A, CHR 0x0B, CHR 0x0C, CHR 0x0D, CHR 0x20])"

definition white_space_runes :: "string list" where
  "white_space_runes =
     [[CHR 0x09], [CHR 0x0A], [CHR 0x0B], [CHR 0x0C], [CHR 0x0D], [CHR 0x20],
      [CHR 0xC2, CHR 0x85], [CHR 0xC2, CHR 0xA0],
      [CHR 0xE1, CHR 0x9A, CHR 0x80],
      [CHR 0xE2, CHR 0x80, CHR 0x80], [CHR 0xE2, CHR 0x80, CHR 0x81],
      [CHR 0xE2, CHR 0x80, CHR 0x82], [CHR 0xE2, CHR 0x80, CHR 0x83],
      [CHR 0xE2, CHR 0x80, CHR 0x84], [CHR 0xE2, CHR 0x80, CHR 0x85],
      [CHR 0xE2, CHR 0x80, CHR 0x86], [CHR 0xE2, CHR 0x80, CHR 0x87],
      [CHR 0xE2, CHR 0x80, CHR 0x88], [CHR 0xE2, CHR 0x80, CHR 0x89],
      [CHR 0xE2, CHR 0x80, CHR 0x8A],
      [CHR 0xE2, CHR 0x80, CHR 0xA8], [CHR 0xE2, CHR 0x80, CHR 0xA9],
      [CHR 0xE2, CHR 0x80, CHR 0xAF],
      [CHR 0xE2, CHR 0x81, CHR 0x9F],
      [CHR 0xE3, CHR 0x80, CHR 0x80]]"

text \<open>
  \<open>leading_space s\<close> is the encoding of the white-space code point that \<open>s\<close> starts
  with, if it starts with one; \<open>trailing_space s\<close> the one it ends with. The encodings
  are prefix-free, and a continuation byte never starts one, so decoding the first rune
  forwards or the last rune backwards finds a white-space code point exactly when one of
  the listed encodings is a prefix or a suffix.
\<close>

definition leading_space :: "string \<Rightarrow> string option" where
  "leading_space s = find (\<lambda>r. take (length r) s = r) white_space_runes"

definition trailing_space :: "string \<Rightarrow> string option" where
  "trailing_space s =
     find (\<lambda>r. length r \<le> length s \<and> drop (length s - length r) s = r) white_space_runes"

text \<open>
  \<open>TrimSpace\<close> is \<open>TrimRightFunc (TrimLeftFunc s IsSpace) IsSpace\<close>: runes are dropped
  from the front while they are white space, then from the back.
\<close>

function TrimLeft :: "string \<Rightarrow> string" where
  "TrimLeft s =
     (case leading_space s of
        None \<Rightarrow> s
      | Some r \<Rightarrow> TrimLeft (drop (length r) s))"
  by pat_completeness auto
termination
proof (relation "measure length")
  fix s r
  assume "leading_space s = Some r"
  then have "r \<in> set white_space_runes" and "take (length r) s = r"
    by (auto simp: leading_space_def find_Some_iff)
  then have "r \<noteq> []" and "s \<noteq> []"
    by (auto simp: white_space_runes_def)
  then show "(drop (length r) s, s) \<in> measure length"
    by simp
qed simp

function TrimRight :: "string \<Rightarrow> string" where
  "TrimRight s =
     (case trailing_space s of
        None \<Rightarrow> s
      | Some r \<Rightarrow> TrimRight (take (length s - length r) s))"
  by pat_completeness auto
termination
proof (relation "measure length")
  fix s r
  assume "trailing_space s = Some r"
  then have "r \<in> set white_space_runes" and "length r \<le> length s"
    by (auto simp: trailing_space_def find_Some_iff)
  then have "r \<noteq> []" and "s \<noteq> []"
    by (auto simp: white_space_runes_def)
  then show "(take (length s - length r) s, s) \<in> measure length"
    by simp
qed simp

declare TrimLeft.simps [simp del] TrimRight.simps [simp del]

definition TrimSpace :: "string \<Rightarrow> string" where
  "TrimSpace s = TrimRight (TrimLeft s)"

text \<open>
  \<open>compactPattern\<close> is the compiled regular expression "one or more white-space
  characters" (the Perl class for white space, followed by a plus sign). In Go's
  regular-expression syntax that class is exactly tab, line feed, form feed, carriage
  return and space: it has neither the vertical tab nor any code point beyond ASCII.
  \<open>ReplaceAllString\<close> scans from the left, replaces each leftmost match (the quantifier
  is greedy, so a match is a maximal run) by \<open>repl\<close> and copies everything else;
  \<open>repl\<close> is taken literally when it has no dollar sign.
\<close>

definition perl_space :: "char \<Rightarrow> bool" where
  "perl_space c = (c \<in> set [CHR 0x09, CHR 0x0A, CHR 0x0C, CHR 0x0D, CHR 0x20])"

function compactPattern_ReplaceAllString :: "string \<Rightarrow> string \<Rightarrow> string" where
  "compactPattern_ReplaceAllString [] repl = []"
| "compactPattern_ReplaceAllString (c # cs) repl =
     (if perl_space c then repl @ compactPattern_ReplaceAllString (dropWhile perl_space cs) repl
      else c # compactPattern_ReplaceAllString cs repl)"
  by pat_completeness auto
termination
  by (relation "measure (\<lambda>(s, repl). length s)") (auto simp: length_dropWhile_le less_Suc_eq_le)

definition compactQueryString :: "string \<Rightarrow> string" where
  "compactQueryString q = compactPattern_ReplaceAllString (TrimSpace q) '' ''"

subsection \<open>The normalisation in the words of the specification\<close>

text \<open>
  For one class \<open>ws\<close> of white-space characters: \<open>spec_trim\<close> removes the surrounding
  white space, \<open>runs\<close> cuts a string into its maximal runs of white-space and of other
  characters, and \<open>spec_collapse\<close> replaces every white-space run by a single space.
\<close>

fun runs :: "('a \<Rightarrow> bool) \<Rightarrow> 'a list \<Rightarrow> 'a list list" where
  "runs p [] = []"
| "runs p (x # xs) =
     (case runs p xs of
        [] \<Rightarrow> [[x]]
      | r # rs \<Rightarrow> if p x = p (hd r) then (x # r) # rs else [x] # r # rs)"

definition spec_collapse :: "(char \<Rightarrow> bool) \<Rightarrow> string \<Rightarrow> string" where
  "spec_collapse ws s = concat (map (\<lambda>r. if ws (hd r) then '' '' else r) (runs ws s))"

definition spec_trim :: "(char \<Rightarrow> bool) \<Rightarrow> string \<Rightarrow> string" where
  "spec_trim ws s = rev (dropWhile ws (rev (dropWhile ws s)))"

definition spec_normalize :: "(char \<Rightarrow> bool) \<Rightarrow> string \<Rightarrow> string" where
  "spec_normalize ws s = spec_collapse ws (spec_trim ws s)"

section \<open>Values, errors and outcomes\<close>

text \<open>
  The library returns Go \<open>error\<close> values. \<open>ErrorString\<close> is \<open>errors.New\<close> with its
  message; \<open>TransportError\<close> stands for whatever the HTTP or GraphQL transport reports;
  \<open>DecodeError\<close> is an error of the JSON decoder.

  Modelled from the spec: the declarations of the sentinel errors \<open>ErrNotFound\<close> and
  \<open>ErrUnknown\<close>, which the accessors return by name, are not among the sources. The
  specification calls them the not-found error and the unknown-server error; each is a
  constructor of its own.
\<close>

datatype error =
    ErrNotFound
  | ErrUnknown
  | ErrorString string
  | TransportError string
  | DecodeError string

text \<open>
  A call returns a value, returns an error (Go's \<open>nil, err\<close>), or panics on the
  dereference of a nil pointer.
\<close>

datatype 'a outcome = Returns 'a | Fails error | Panics

subsection \<open>Request inputs\<close>

record SetSecretsInputSecret =
  SetSecretsInputSecret_Key :: string
  SetSecretsInputSecret_Value :: string

record SetSecretsInput =
  SetSecretsInput_AppID :: string
  SetSecretsInput_Secrets :: "SetSecretsInputSecret list"

record UnsetSecretsInput =
  UnsetSecretsInput_AppID :: string
  UnsetSecretsInput_Keys :: "string list"

record CreateAppInput =
  CreateAppInput_OrganizationID :: string
  CreateAppInput_Runtime :: string
  CreateAppInput_Name :: string

text \<open>
  The values bound to request variables and marshalled to JSON (Go's \<open>interface{}\<close>):
  strings, ints, booleans, string slices, string-keyed maps and the three input structs.
\<close>

datatype gvalue =
    VString string
  | VInt int
  | VBool bool
  | VStrings "string list"
  | VMap "string \<Rightarrow> gvalue option"
  | VSetSecretsInput SetSecretsInput
  | VUnsetSecretsInput UnsetSecretsInput
  | VCreateAppInput CreateAppInput

text \<open>
  The JSON object of a \<open>CreateAppInput\<close>: its fields in declaration order under the keys
  of their \<open>json\<close> tags.
\<close>

definition CreateAppInput_json :: "CreateAppInput \<Rightarrow> (string \<times> gvalue) list" where
  "CreateAppInput_json i =
     [(''organizationId'', VString (CreateAppInput_OrganizationID i)),
      (''runtime'', VString (CreateAppInput_Runtime i)),
      (''name'', VString (CreateAppInput_Name i))]"

subsection \<open>GraphQL requests\<close>

text \<open>
  A \<open>graphql.Request\<close>: the document, the variables and the HTTP header.
  \<open>graphql.NewRequest\<close> starts with no variable and an empty header; \<open>Var\<close> sets one
  variable.
\<close>

record Request =
  req_q :: string
  req_vars :: "string \<Rightarrow> gvalue option"
  req_Header :: "string \<Rightarrow> string option"

definition graphql_NewRequest :: "string \<Rightarrow> Request" where
  "graphql_NewRequest q = \<lparr>req_q = q, req_vars = Map.empty, req_Header = Map.empty\<rparr>"

definition Var :: "string \<Rightarrow> gvalue \<Rightarrow> Request \<Rightarrow> Request" where
  "Var key v req = req\<lparr>req_vars := (req_vars req)(key \<mapsto> v)\<rparr>"

definition NewRequest :: "string \<Rightarrow> Request" where
  "NewRequest q = graphql_NewRequest (compactQueryString q)"

section \<open>Response types\<close>

text \<open>
  The structs of \<open>types.go\<close>, with every field prefixed by the name of its struct. A
  \<open>time.Time\<close> is kept as the text it was decoded from. An anonymous
  \<open>struct { Nodes []T }\<close> is a \<open>T nodes\<close>; an anonymous struct with a single field is
  flattened into that field (\<open>Deployment_Release_Version\<close>, \<open>Query_CreateApp_App\<close>,
  \<open>Query_CreateBuild_Build\<close>); the anonymous struct of a deployment and a release is a
  \<open>DeploymentRelease\<close>.
\<close>

type_synonym Time = string

record 'a nodes =
  Nodes :: "'a list"

record Organization =
  Organization_ID :: string
  Organization_Name :: string
  Organization_Slug :: string

record Service =
  Service_ID :: string
  Service_Protocol :: string
  Service_Port :: int
  Service_InternalPort :: int
  Service_Filters :: "string list"

record Allocation =
  Allocation_ID :: string
  Allocation_Version :: int
  Allocation_Status :: string
  Allocation_DesiredStatus :: string
  Allocation_Region :: string
  Allocation_CreatedAt :: Time

record Task =
  Task_ID :: string
  Task_Name :: string
  Task_Status :: string
  Task_ServicesSummary :: string
  Task_Services :: "Service list"
  Task_Allocations :: "Allocation list"

record IPAddress =
  IPAddress_ID :: string
  IPAddress_Address :: string
  IPAddress_Type :: string

record User =
  User_ID :: string
  User_Name :: string
  User_Email :: string

record Deployment =
  Deployment_ID :: string
  Deployment_Number :: int
  Deployment_CurrentPhase :: string
  Deployment_Description :: string
  Deployment_InProgress :: bool
  Deployment_Reason :: string
  Deployment_Status :: string
  Deployment_Trigger :: string
  Deployment_User :: User
  Deployment_CreatedAt :: string
  Deployment_UpdatedAt :: string
  Deployment_Release_Version :: int

record Secret =
  Secret_Name :: string
  Secret_Digest :: string
  Secret_CreatedAt :: Time

record Release =
  Release_ID :: string
  Release_Version :: int
  Release_Reason :: string
  Release_Description :: string
  Release_User :: User
  Release_CreatedAt :: Time

record Build =
  Build_ID :: string
  Build_InProgress :: bool
  Build_Status :: string
  Build_User :: User
  Build_Logs :: string
  Build_CreatedAt :: Time
  Build_UpdatedAt :: Time

record SignedUrls =
  SignedUrls_GetUrl :: string
  SignedUrls_PutUrl :: string

record App =
  App_ID :: string
  App_Name :: string
  App_Status :: string
  App_Version :: int
  App_AppURL :: string
  App_Organization :: Organization
  App_Tasks :: "Task list"
  App_Secrets :: "Secret list"
  App_Deployments :: "Deployment nodes"
  App_Releases :: "Release nodes"
  App_IPAddresses :: "IPAddress nodes"
  App_Builds :: "Build nodes"

record DeploymentRelease =
  DeploymentRelease_Deployment :: Deployment
  DeploymentRelease_Release :: Release

text \<open>
  Modelled from the spec: the declarations of the DNS zone, of the organization details
  and of the envelope fields \<open>Organization\<close> and \<open>DNSZone\<close> are not among the sources.
  The specification says that the accessors read a possibly-nil \<open>nodes\<close> pointer and that
  the zone lookups test the envelope sub-field for nil. The fields below are the ones the
  accessors read, with the pointer types their use implies: \<open>Organization\<close>,
  \<open>DNSZone\<close> and \<open>Nodes\<close> are pointers (\<open>None\<close> is nil), a list element is a pointer to a
  record, a zone or a peer. The record and peer types are parameters.
\<close>

record 'r DNSZone =
  DNSZone_Records_Nodes :: "'r option list option"

record ('r, 'p) OrganizationDetails =
  OrganizationDetails_DNSZone :: "'r DNSZone option"
  OrganizationDetails_DNSZones_Nodes :: "'r DNSZone option list option"
  OrganizationDetails_WireGuardPeers_Nodes :: "'p option list option"

text \<open>
  The envelope \<open>Query\<close> that every GraphQL response is decoded into: the fields of
  \<open>types.go\<close> and the two pointer fields the DNS and WireGuard accessors read.
\<close>

record ('r, 'p) Query =
  Query_Apps :: "App nodes"
  Query_App :: App
  Query_CurrentUser :: User
  Query_Organizations :: "Organization nodes"
  Query_Build :: Build
  Query_CreateApp_App :: App
  Query_SetSecrets :: DeploymentRelease
  Query_UnsetSecrets :: DeploymentRelease
  Query_DeployImage :: DeploymentRelease
  Query_CreateSignedUrl :: SignedUrls
  Query_CreateBuild_Build :: Build
  Query_Organization :: "('r, 'p) OrganizationDetails option"
  Query_DNSZone :: "'r DNSZone option"

subsection \<open>Zero values\<close>

text \<open>A response fills the fields its query asks for; every other field has Go's zero value.\<close>

definition zero_User :: User where
  "zero_User = \<lparr>User_ID = '''', User_Name = '''', User_Email = ''''\<rparr>"

definition zero_Organization :: Organization where
  "zero_Organization =
     \<lparr>Organization_ID = '''', Organization_Name = '''', Organization_Slug = ''''\<rparr>"

definition zero_Build :: Build where
  "zero_Build =
     \<lparr>Build_ID = '''', Build_InProgress = False, Build_Status = '''', Build_User = zero_User,
      Build_Logs = '''', Build_CreatedAt = '''', Build_UpdatedAt = ''''\<rparr>"

definition zero_Release :: Release where
  "zero_Release =
     \<lparr>Release_ID = '''', Release_Version = 0, Release_Reason = '''', Release_Description = '''',
      Release_User = zero_User, Release_CreatedAt = ''''\<rparr>"

definition zero_Deployment :: Deployment where
  "zero_Deployment =
     \<lparr>Deployment_ID = '''', Deployment_Number = 0, Deployment_CurrentPhase = '''',
      Deployment_Description = '''', Deployment_InProgress = False, Deployment_Reason = '''',
      Deployment_Status = '''', Deployment_Trigger = '''', Deployment_User = zero_User,
      Deployment_CreatedAt = '''', Deployment_UpdatedAt = '''',
      Deployment_Release_Version = 0\<rparr>"

definition zero_DeploymentRelease :: DeploymentRelease where
  "zero_DeploymentRelease =
     \<lparr>DeploymentRelease_Deployment = zero_Deployment,
      DeploymentRelease_Release = zero_Release\<rparr>"

definition zero_App :: App where
  "zero_App =
     \<lparr>App_ID = '''', App_Name = '''', App_Status = '''', App_Version = 0, App_AppURL = '''',
      App_Organization = zero_Organization, App_Tasks = [], App_Secrets = [],
      App_Deployments = \<lparr>Nodes = []\<rparr>, App_Releases = \<lparr>Nodes = []\<rparr>,
      App_IPAddresses = \<lparr>Nodes = []\<rparr>, App_Builds = \<lparr>Nodes = []\<rparr>\<rparr>"

definition zero_Query :: "('r, 'p) Query" where
  "zero_Query =
     \<lparr>Query_Apps = \<lparr>Nodes = []\<rparr>, Query_App = zero_App, Query_CurrentUser = zero_User,
      Query_Organizations = \<lparr>Nodes = []\<rparr>, Query_Build = zero_Build,
      Query_CreateApp_App = zero_App, Query_SetSecrets = zero_DeploymentRelease,
      Query_UnsetSecrets = zero_DeploymentRelease, Query_DeployImage = zero_DeploymentRelease,
      Query_CreateSignedUrl = \<lparr>SignedUrls_GetUrl = '''', SignedUrls_PutUrl = ''''\<rparr>,
      Query_CreateBuild_Build = zero_Build, Query_Organization = None, Query_DNSZone = None\<rparr>"

section \<open>The transport client\<close>

text \<open>
  A \<open>context.Context\<close> is either the background context or some other context of the
  caller.
\<close>

datatype go_context = Background | Context nat

text \<open>
  The client holds the access token and the GraphQL client. \<open>Client_Run\<close> is the
  \<open>Run\<close> of the GraphQL client, which sends the request and decodes the response into a
  fresh envelope: it gives the envelope as it leaves it and the error it returns.
\<close>

record ('r, 'p) Client =
  Client_accessToken :: string
  Client_Run :: "go_context \<Rightarrow> Request \<Rightarrow> ('r, 'p) Query \<times> error option"

definition RunWithContext ::
  "('r, 'p) Client \<Rightarrow> go_context \<Rightarrow> Request \<Rightarrow> ('r, 'p) Query \<times> error option" where
  "RunWithContext c ctx req =
     Client_Run c ctx
       (req\<lparr>req_Header :=
          (req_Header req)(''Authorization'' \<mapsto> ''Bearer '' @ Client_accessToken c)\<rparr>)"

definition Run :: "('r, 'p) Client \<Rightarrow> Request \<Rightarrow> ('r, 'p) Query \<times> error option" where
  "Run c req = RunWithContext c Background req"

section \<open>Resource operations\<close>

subsection \<open>The GraphQL documents\<close>

text \<open>
  Every operation holds its document in a raw string literal. \<open>line n s\<close> is one line of
  such a literal: \<open>n\<close> tabs of indentation, the text \<open>s\<close> and the line feed. Each
  definition below is the literal of the function it is named after, byte for byte.
  \<open>DeployImage_v2\<close> is the \<open>DeployImage\<close> that takes a \<open>DeployImageInput\<close>.
\<close>

definition line :: "nat \<Rightarrow> string \<Rightarrow> string" where
  "line n s = replicate n (CHR 0x09) @ s @ [CHR 0x0A]"

definition GetCurrentUser_query :: string where
  \<open>GetCurrentUser_query = concat [
     line 0 '''',
     line 2 ''query {'',
     line 3 ''currentUser {'',
     line 4 ''email'',
     line 3 ''}'',
     line 2 ''}'',
     replicate 1 (CHR 0x09)]\<close>

definition GetOrganizations_query :: string where
  \<open>GetOrganizations_query = concat [
     line 0 '''',
     line 2 ''{'',
     line 3 ''organizations {'',
     line 4 ''nodes {'',
     line 5 ''id'',
     line 5 ''slug'',
     line 5 ''name'',
     line 5 ''type'',
     line 4 ''}'',
     line 3 ''}'',
     line 2 ''}'',
     replicate 1 (CHR 0x09)]\<close>

definition DeployImage_query :: string where
  \<open>DeployImage_query = concat [
     line 0 '''',
     line 3 ''mutation($input: DeployImageInput!) {'',
     line 4 ''deployImage(input: $input) {'',
     line 5 ''release {'',
     line 6 ''id'',
     line 6 ''version'',
     line 6 ''reason'',
     line 6 ''description'',
     line 6 ''user {'',
     line 7 ''id'',
     line 7 ''email'',
     line 7 ''name'',
     line 6 ''}'',
     line 6 ''createdAt'',
     line 5 ''}'',
     line 4 ''}'',
     line 3 ''}'',
     replicate 2 (CHR 0x09)]\<close>

definition GetApps_query :: string where
  \<open>GetApps_query = concat [
     line 0 '''',
     line 2 ''query {'',
     line 3 ''apps(type: "container") {'',
     line 4 ''nodes {'',
     line 5 ''id'',
     line 5 ''name'',
     line 5 ''organization {'',
     line 6 ''slug'',
     line 5 ''}'',
     line 4 ''}'',
     line 3 ''}'',
     line 2 ''}'',
     replicate 2 (CHR 0x09)]\<close>

definition GetApp_query :: string where
  \<open>GetApp_query = concat [
     line 0 '''',
     line 2 ''query ($appName: String!) {'',
     line 3 ''app(name: $appName) {'',
     line 4 ''id'',
     line 4 ''name'',
     line 4 ''deployed'',
     line 4 ''status'',
     line 4 ''appUrl'',
     line 4 ''organization {'',
     line 5 ''slug'',
     line 4 ''}'',
     line 4 ''tasks {'',
     line 5 ''id'',
     line 5 ''name'',
     line 5 ''services {'',
     line 6 ''protocol'',
     line 6 ''port'',
     line 6 ''internalPort'',
     line 6 ''filters'',
     line 5 ''}'',
     line 4 ''}'',
     line 4 ''ipAddresses {'',
     line 5 ''nodes {'',
     line 6 ''id'',
     line 6 ''address'',
     line 6 ''type'',
     line 5 ''}'',
     line 4 ''}'',
     line 3 ''}'',
     line 2 ''}'',
     replicate 1 (CHR 0x09)]\<close>

definition GetAppReleases_query :: string where
  \<open>GetAppReleases_query = concat [
     line 0 '''',
     line 2 ''query ($appName: String!, $limit: Int!) {'',
     line 3 ''app(name: $appName) {'',
     line 4 ''releases(first: $limit) {'',
     line 5 ''nodes {'',
     line 6 ''id'',
     line 6 ''version'',
     line 6 ''reason'',
     line 6 ''description'',
     line 6 ''user {'',
     line 7 ''id'',
     line 7 ''email'',
     line 7 ''name'',
     line 6 (''}'' @ [CHR 0x09] @ ''''),
     line 6 ''createdAt'',
     line 5 ''}'',
     line 4 ''}'',
     line 3 ''}'',
     line 2 ''}'',
     replicate 1 (CHR 0x09)]\<close>

definition SetSecrets_query :: string where
  \<open>SetSecrets_query = concat [
     line 0 '''',
     line 2 ''mutation($input: SetSecretsInput!) {'',
     line 3 ''setSecrets(input: $input) {'',
     line 4 ''release {'',
     line 5 ''id'',
     line 5 ''version'',
     line 5 ''reason'',
     line 5 ''description'',
     line 5 ''user {'',
     line 6 ''id'',
     line 6 ''email'',
     line 6 ''name'',
     line 5 ''}'',
     line 5 ''createdAt'',
     line 4 ''}'',
     line 3 ''}'',
     line 2 ''}'',
     replicate 1 (CHR 0x09)]\<close>

definition UnsetSecrets_query :: string where
  \<open>UnsetSecrets_query = concat [
     line 0 '''',
     line 2 ''mutation($input: UnsetSecretsInput!) {'',
     line 3 ''unsetSecrets(input: $input) {'',
     line 4 ''release {'',
     line 5 ''id'',
     line 5 ''version'',
     line 5 ''reason'',
     line 5 ''description'',
     line 5 ''user {'',
     line 6 ''id'',
     line 6 ''email'',
     line 6 ''name'',
     line 5 ''}'',
     line 5 ''createdAt'',
     line 4 ''}'',
     line 3 ''}'',
     line 2 ''}'',
     replicate 1 (CHR 0x09)]\<close>

definition GetAppSecrets_query :: string where
  \<open>GetAppSecrets_query = concat [
     line 0 '''',
     line 2 ''query ($appName: String!) {'',
     line 3 ''app(name: $appName) {'',
     line 4 ''secrets {'',
     line 5 ''name'',
     line 5 ''digest'',
     line 5 ''createdAt'',
     line 4 ''}'',
     line 3 ''}'',
     line 2 ''}'',
     replicate 1 (CHR 0x09)]\<close>

definition CreateApp_query :: string where
  \<open>CreateApp_query = concat [
     line 0 '''',
     line 2 ''mutation($input: CreateAppInput!) {'',
     line 3 ''createApp(input: $input) {'',
     line 4 ''app {'',
     line 5 ''id'',
     line 5 ''name'',
     line 5 ''organization {'',
     line 6 ''slug'',
     line 5 ''}'',
     line 4 ''}'',
     line 3 ''}'',
     line 2 ''}'',
     replicate 1 (CHR 0x09)]\<close>

definition GetAppWithTasks_query :: string where
  \<open>GetAppWithTasks_query = concat [
     line 0 '''',
     line 2 ''query($appName: String!) {'',
     line 3 ''app(name: $appName) {'',
     line 4 ''deployed'',
     line 4 ''tasks {'',
     line 5 ''id'',
     line 5 ''name'',
     line 5 ''status'',
     line 5 ''servicesSummary'',
     line 5 ''allocations {'',
     line 6 ''id'',
     line 6 ''version'',
     line 6 ''status'',
     line 6 ''desiredStatus'',
     line 6 ''region'',
     line 6 ''createdAt'',
     line 5 ''}'',
     line 4 ''}'',
     line 3 ''}'',
     line 2 ''}'',
     replicate 1 (CHR 0x09)]\<close>

definition CreateSignedUrls_query :: string where
  \<open>CreateSignedUrls_query = concat [
     line 0 '''',
     line 2 ''mutation($appId: ID!, $filename: String!) {'',
     line 3 ''createSignedUrl(appId: $appId, filename: $filename) {'',
     line 4 ''getUrl'',
     line 4 ''putUrl'',
     line 3 ''}'',
     line 2 ''}'',
     replicate 1 (CHR 0x09)]\<close>

definition CreateBuild_query :: string where
  \<open>CreateBuild_query = concat [
     line 0 '''',
     line 2 ''mutation($appId: ID!, $sourceUrl: String!, $sourceType: UrlSource!) {'',
     line 3 ''createBuild(appId: $appId, sourceUrl: $sourceUrl, sourceType: $sourceType) {'',
     line 4 ''build {'',
     line 5 ''id'',
     line 5 ''inProgress'',
     line 5 ''status'',
     line 5 ''user {'',
     line 6 ''id'',
     line 6 ''name'',
     line 6 ''email'',
     line 5 ''}'',
     line 5 ''createdAt'',
     line 5 ''updatedAt'',
     line 4 ''}'',
     line 3 ''}'',
     line 2 ''}'',
     replicate 1 (CHR 0x09)]\<close>

definition ListBuilds_query :: string where
  \<open>ListBuilds_query = concat [
     line 0 '''',
     line 2 ''query($appName: String!) {'',
     line 3 ''app(name: $appName) {'',
     line 4 ''builds {'',
     line 5 ''nodes {'',
     line 6 ''id'',
     line 6 ''inProgress'',
     line 6 ''status'',
     line 6 ''user {'',
     line 7 ''id'',
     line 7 ''name'',
     line 7 ''email'',
     line 6 ''}'',
     line 6 ''createdAt'',
     line 6 ''updatedAt'',
     line 5 ''}'',
     line 4 ''}'',
     line 3 ''}'',
     line 2 ''}'',
     replicate 1 (CHR 0x09)]\<close>

definition GetBuild_query :: string where
  \<open>GetBuild_query = concat [
     line 0 '''',
     line 2 ''query($id: ID!) {'',
     line 3 ''build: node(id: $id) {'',
     line 4 ''id'',
     line 4 ''__typename'',
     line 4 ''... on Build {'',
     line 5 ''inProgress'',
     line 5 ''status'',
     line 5 ''logs'',
     line 5 ''user {'',
     line 6 ''id'',
     line 6 ''name'',
     line 6 ''email'',
     line 5 ''}'',
     line 5 ''createdAt'',
     line 5 ''updatedAt'',
     line 4 ''}'',
     line 3 ''}'',
     line 2 ''}'',
     replicate 1 (CHR 0x09)]\<close>

definition GetDNSZones_query :: string where
  \<open>GetDNSZones_query = concat [
     line 0 '''',
     line 2 ''query($slug: String!) {'',
     line 3 ''organization(slug: $slug) {'',
     line 4 ''dnsZones {'',
     line 5 ''nodes {'',
     line 6 ''id'',
     line 6 ''domain'',
     line 6 ''createdAt'',
     line 5 ''}'',
     line 4 ''}'',
     line 3 ''}'',
     line 2 ''}'',
     replicate 1 (CHR 0x09)]\<close>

definition FindDNSZone_query :: string where
  \<open>FindDNSZone_query = concat [
     line 0 '''',
     line 2 ''query($slug: String!, $domain: String!) {'',
     line 3 ''organization(slug: $slug) {'',
     line 4 ''dnsZone(domain: $domain) {'',
     line 5 ''id'',
     line 5 ''domain'',
     line 5 ''createdAt'',
     line 5 ''organization {'',
     line 6 ''id'',
     line 6 ''slug'',
     line 6 ''name'',
     line 5 ''}'',
     line 4 ''}'',
     line 3 ''}'',
     line 2 ''}'',
     replicate 1 (CHR 0x09)]\<close>

definition CreateDNSZone_query :: string where
  \<open>CreateDNSZone_query = concat [
     line 0 '''',
     line 2 ''mutation($input: CreateDnsZoneInput!) {'',
     line 3 ''createDnsZone(input: $input) {'',
     line 4 ''zone {'',
     line 5 ''id'',
     line 5 ''domain'',
     line 5 ''createdAt'',
     line 4 ''}'',
     line 3 ''}'',
     line 2 ''}'',
     replicate 1 (CHR 0x09)]\<close>

definition DeleteDNSZone_query :: string where
  \<open>DeleteDNSZone_query = concat [
     line 0 '''',
     line 2 ''mutation($input: DeleteDnsZoneInput!) {'',
     line 3 ''deleteDnsZone(input: $input) {'',
     line 4 ''clientMutationId'',
     line 3 ''}'',
     line 2 ''}'',
     replicate 1 (CHR 0x09)]\<close>

definition GetDNSRecords_query :: string where
  \<open>GetDNSRecords_query = concat [
     line 0 '''',
     line 2 ''query($zoneId: ID!) {'',
     line 3 ''dnsZone: node(id: $zoneId) {'',
     line 4 ''... on DnsZone {'',
     line 5 ''records {'',
     line 6 ''nodes {'',
     line 7 ''id'',
     line 7 ''fqdn'',
     line 7 ''name'',
     line 7 ''type'',
     line 7 ''ttl'',
     line 7 ''values'',
     line 7 ''isApex'',
     line 7 ''isWildcard'',
     line 7 ''isSystem'',
     line 7 ''createdAt'',
     line 7 ''updatedAt'',
     line 6 ''}'',
     line 5 ''}'',
     line 4 ''}'',
     line 3 ''}'',
     line 2 ''}'',
     replicate 1 (CHR 0x09)]\<close>

definition ExportDNSRecords_query :: string where
  \<open>ExportDNSRecords_query = concat [
     line 0 '''',
     line 2 ''mutation($input: ExportDnsZoneInput!) {'',
     line 3 ''exportDnsZone(input: $input) {'',
     line 4 ''contents'',
     line 3 ''}'',
     line 2 ''}'',
     replicate 1 (CHR 0x09)]\<close>

definition ImportDNSRecords_query :: string where
  \<open>ImportDNSRecords_query = concat [
     line 0 '''',
     line 2 ''mutation($input: ImportDnsZoneInput!) {'',
     line 3 ''importDnsZone(input: $input) {'',
     line 4 ''results {'',
     line 5 ''created'',
     line 5 ''deleted'',
     line 5 ''updated'',
     line 5 ''skipped'',
     line 5 ''type'',
     line 4 ''}'',
     line 3 ''}'',
     line 2 ''}'',
     replicate 1 (CHR 0x09)]\<close>

definition GetWireGuardPeerStatus_query :: string where
  \<open>GetWireGuardPeerStatus_query = concat [
     line 0 '''',
     line 0 ''query($slug: String!, $name: String!) {'',
     line 0 ''  organization(slug: $slug) {'',
     line 0 ''    wireGuardPeer(name: $name) {'',
     line 0 ''      gatewayStatus'',
     line 0 ''    }'',
     line 0 ''  }'',
     line 0 ''}'']\<close>

definition GetWireGuardPeer_query :: string where
  \<open>GetWireGuardPeer_query = concat [
     line 0 '''',
     line 0 ''query($slug: String!, $name: String!) {'',
     line 0 ''  organization(slug: $slug) {'',
     line 0 ''    wireGuardPeer(name: $name) {'',
     line 0 ''      id'',
     line 0 ''      name'',
     line 0 ''      pubkey'',
     line 0 ''      region'',
     line 0 ''      peerip'',
     line 0 ''    }'',
     line 0 ''  }'',
     line 0 ''}'']\<close>

definition GetWireGuardPeers_query :: string where
  \<open>GetWireGuardPeers_query = concat [
     line 0 '''',
     line 0 ''query($slug: String!) {'',
     line 0 ''  organization(slug: $slug) {'',
     line 0 ''    wireGuardPeers {'',
     line 0 ''      nodes {'',
     line 0 ''        id'',
     line 0 ''        name'',
     line 0 ''        pubkey'',
     line 0 ''        region'',
     line 0 ''        peerip'',
     line 0 ''      }'',
     line 0 ''    }'',
     line 0 ''  }'',
     line 0 ''}'']\<close>

definition CreateWireGuardPeer_query :: string where
  \<open>CreateWireGuardPeer_query = concat [
     line 0 '''',
     line 0 ''mutation($input: AddWireGuardPeerInput!) {'',
     line 0 ''  addWireGuardPeer(input: $input) {'',
     line 0 ''    peerip'',
     line 0 ''    endpointip'',
     line 0 ''    pubkey'',
     line 0 ''  }'',
     line 0 ''}'']\<close>

definition RemoveWireGuardPeer_query :: string where
  \<open>RemoveWireGuardPeer_query = concat [
     line 0 '''',
     line 0 ''mutation($input: RemoveWireGuardPeerInput!) {'',
     line 0 ''  removeWireGuardPeer(input: $input) {'',
     line 0 ''    organization {'',
     line 0 ''      id'',
     line 0 ''    }'',
     line 0 ''  }'',
     line 0 ''}'']\<close>

definition CreateDelegatedWireGuardToken_query :: string where
  \<open>CreateDelegatedWireGuardToken_query = concat [
     line 0 '''',
     line 0 ''mutation($input: CreateDelegatedWireGuardTokenInput!) {'',
     line 0 ''  createDelegatedWireGuardToken(input: $input) {'',
     line 0 ''    token'',
     line 0 ''  }'',
     line 0 ''}'']\<close>

definition DeleteDelegatedWireGuardToken_query :: string where
  \<open>DeleteDelegatedWireGuardToken_query = concat [
     line 0 '''',
     line 0 ''mutation($input: DeleteDelegatedWireGuardTokenInput!) {'',
     line 0 ''  deleteDelegatedWireGuardToken(input: $input) {'',
     line 0 ''    token'',
     line 0 ''  }'',
     line 0 ''}'']\<close>

definition GetDelegatedWireGuardTokens_query :: string where
  \<open>GetDelegatedWireGuardTokens_query = concat [
     line 0 '''',
     line 0 ''query($slug: String!) {'',
     line 0 ''  organization(slug: $slug) {'',
     line 0 ''    delegatedWireGuardTokens {'',
     line 0 ''      nodes {'',
     line 0 ''        name'',
     line 0 ''      }'',
     line 0 ''    }'',
     line 0 ''  }'',
     line 0 ''}'']\<close>

definition ClosestWireguardGatewayRegion_query :: string where
  \<open>ClosestWireguardGatewayRegion_query = concat [
     line 0 '''',
     line 2 ''query {'',
     line 3 ''nearestRegion(wireguardGateway: true) {'',
     line 4 ''code'',
     line 4 ''name'',
     line 4 ''gatewayAvailable'',
     line 3 ''}'',
     line 2 ''}'']\<close>

definition ValidateWireGuardPeers_query :: string where
  \<open>ValidateWireGuardPeers_query = concat [
     line 0 '''',
     line 0 ''mutation($input: ValidateWireGuardPeersInput!) {'',
     line 0 ''  validateWireGuardPeers(input: $input) {'',
     line 2 ''invalidPeerIps'',
     line 1 ''}'',
     line 0 ''}'']\<close>

definition GetLoggedCertificates_query :: string where
  \<open>GetLoggedCertificates_query = concat [
     line 0 '''',
     line 0 ''query($slug: String!) { '',
     line 0 ''  organization(slug: $slug) { '',
     line 0 ''    loggedCertificates { '',
     line 0 ''      nodes { '',
     line 0 ''        root'',
     line 0 ''        cert'',
     line 0 ''      } '',
     line 0 ''    }'',
     line 0 ''  } '',
     line 0 ''}'']\<close>

definition EstablishSSHKey_query :: string where
  \<open>EstablishSSHKey_query = concat [
     line 0 '''',
     line 0 ''mutation($input: EstablishSSHKeyInput!) { '',
     line 0 ''  establishSshKey(input: $input) { '',
     line 0 ''    certificate'',
     line 0 ''  } '',
     line 0 ''}'']\<close>

definition IssueSSHCertificate_query :: string where
  \<open>IssueSSHCertificate_query = concat [
     line 0 '''',
     line 0 ''mutation($input: IssueCertificateInput!) { '',
     line 0 ''  issueCertificate(input: $input) { '',
     line 0 ''    certificate, key'',
     line 0 ''  } '',
     line 0 ''}'']\<close>

definition PlatformRegions_query :: string where
  \<open>PlatformRegions_query = concat [
     line 0 '''',
     line 2 ''query {'',
     line 3 ''platform {'',
     line 4 ''requestRegion'',
     line 4 ''regions {'',
     line 5 ''name'',
     line 5 ''code'',
     line 5 ''gatewayAvailable'',
     line 4 ''}'',
     line 3 ''}'',
     line 2 ''}'',
     replicate 1 (CHR 0x09)]\<close>

definition PlatformRegionsAll_query :: string where
  \<open>PlatformRegionsAll_query = concat [
     line 0 '''',
     line 2 ''query {'',
     line 3 ''platform {'',
     line 4 ''regions {'',
     line 5 ''name'',
     line 5 ''code'',
     line 5 ''latitude'',
     line 5 ''longitude'',
     line 5 ''gatewayAvailable'',
     line 4 ''}'',
     line 3 ''}'',
     line 2 ''}'',
     replicate 1 (CHR 0x09)]\<close>

definition PlatformVMSizes_query :: string where
  \<open>PlatformVMSizes_query = concat [
     line 0 '''',
     line 2 ''query {'',
     line 3 ''platform {'',
     line 4 ''vmSizes {'',
     line 5 ''name'',
     line 5 ''cpuCores'',
     line 5 ''memoryGb'',
     line 5 ''memoryMb'',
     line 5 ''priceMonth'',
     line 5 ''priceSecond'',
     line 4 ''}'',
     line 3 ''}'',
     line 2 ''}'',
     replicate 1 (CHR 0x09)]\<close>

definition DeployImage_v2_query :: string where
  \<open>DeployImage_v2_query = concat [
     line 0 '''',
     line 3 ''mutation($input: DeployImageInput!) {'',
     line 4 ''deployImage(input: $input) {'',
     line 5 ''release {'',
     line 6 ''id'',
     line 6 ''version'',
     line 6 ''reason'',
     line 6 ''description'',
     line 6 ''user {'',
     line 7 ''id'',
     line 7 ''email'',
     line 7 ''name'',
     line 6 ''}'',
     line 6 ''createdAt'',
     line 5 ''}'',
     line 4 ''}'',
     line 3 ''}'',
     replicate 2 (CHR 0x09)]\<close>

definition GetDeploymentStatus_query :: string where
  \<open>GetDeploymentStatus_query = concat [
     line 0 '''',
     line 2 ''query ($appName: String!, $deploymentId: ID!) {'',
     line 3 ''app(name: $appName) {'',
     line 4 ''deploymentStatus(id: $deploymentId) {'',
     line 5 ''id'',
     line 5 ''inProgress'',
     line 5 ''status'',
     line 5 ''successful'',
     line 5 ''description'',
     line 5 ''version'',
     line 5 ''desiredCount'',
     line 5 ''placedCount'',
     line 5 ''healthyCount'',
     line 5 ''unhealthyCount'',
     line 5 ''allocations {'',
     line 6 ''id'',
     line 6 ''idShort'',
     line 6 ''status'',
     line 6 ''region'',
     line 6 ''desiredStatus'',
     line 6 ''version'',
     line 6 ''healthy'',
     line 0 ''            failed'',
     line 0 ''            canary'',
     line 6 ''checks {'',
     line 7 ''status'',
     line 7 ''output'',
     line 7 ''name'',
     line 7 ''serviceName'',
     line 6 ''}'',
     line 6 ''events {'',
     line 7 ''timestamp'',
     line 7 ''type'',
     line 7 ''message'',
     line 6 ''}'',
     line 5 ''}'',
     line 4 ''}'',
     line 3 ''}'',
     line 2 ''}'',
     replicate 1 (CHR 0x09)]\<close>

definition GetConfig_query :: string where
  \<open>GetConfig_query = concat [
     line 0 '''',
     line 3 ''query($appName: String!) {'',
     line 4 ''app(name: $appName) {'',
     line 5 ''config {'',
     line 6 ''definition'',
     line 5 ''}'',
     line 4 ''}'',
     line 3 ''}'',
     replicate 2 (CHR 0x09)]\<close>

definition ParseConfig_query :: string where
  \<open>ParseConfig_query = concat [
     line 0 '''',
     line 3 ''query($appName: String!, $definition: JSON!) {'',
     line 4 ''app(name: $appName) {'',
     line 5 ''parseConfig(definition: $definition) {'',
     line 6 ''definition'',
     line 6 ''valid'',
     line 6 ''errors'',
     line 6 ''services {'',
     line 7 ''description'',
     line 6 ''}'',
     line 5 ''}'',
     line 4 ''}'',
     line 3 ''}'',
     replicate 2 (CHR 0x09)]\<close>

definition ValidateConfig_query :: string where
  \<open>ValidateConfig_query = concat [
     line 0 '''',
     line 3 ''query($definition: JSON!) {'',
     line 4 ''validateConfig(definition: $definition) {'',
     line 5 ''definition'',
     line 5 ''valid'',
     line 5 ''errors'',
     line 4 ''}'',
     line 3 ''}'',
     replicate 2 (CHR 0x09)]\<close>

subsection \<open>Building the requests\<close>

text \<open>
  The request each operation hands to \<open>Run\<close> or \<open>RunWithContext\<close>: the document through
  \<open>NewRequest\<close>, then the variables in the order the function binds them. An operation
  that reads \<open>org.ID\<close> from its \<open>*Organization\<close> argument panics when the pointer is nil,
  so its request is an outcome. A \<open>map[string]string\<close> and a \<open>map[string]interface{}\<close> are
  both a \<open>VMap\<close>.
\<close>

definition GetCurrentUser_request :: Request where
  "GetCurrentUser_request = NewRequest GetCurrentUser_query"

definition GetOrganizations_request :: Request where
  "GetOrganizations_request = NewRequest GetOrganizations_query"

definition DeployImage_request :: "string \<Rightarrow> string \<Rightarrow> Request" where
  "DeployImage_request appName imageTag =
     Var ''input'' (VMap [''appId'' \<mapsto> VString appName, ''image'' \<mapsto> VString imageTag])
       (NewRequest DeployImage_query)"

definition GetApps_request :: Request where
  "GetApps_request = NewRequest GetApps_query"

definition GetApp_request :: "string \<Rightarrow> Request" where
  "GetApp_request appName = Var ''appName'' (VString appName) (NewRequest GetApp_query)"

definition GetAppReleases_request :: "string \<Rightarrow> int \<Rightarrow> Request" where
  "GetAppReleases_request appName limit =
     Var ''limit'' (VInt limit)
       (Var ''appName'' (VString appName) (NewRequest GetAppReleases_query))"

text \<open>
  \<open>SetSecrets\<close> ranges over a Go map, in an order the language leaves open: \<open>secrets\<close> is
  the list of the map's entries in the order the loop visits them.
\<close>

definition SetSecrets_request :: "string \<Rightarrow> (string \<times> string) list \<Rightarrow> Request" where
  "SetSecrets_request appName secrets =
     (let input = \<lparr>SetSecretsInput_AppID = appName,
                    SetSecretsInput_Secrets =
                      map (\<lambda>(k, v). \<lparr>SetSecretsInputSecret_Key = k,
                                       SetSecretsInputSecret_Value = v\<rparr>) secrets\<rparr>
      in Var ''input'' (VSetSecretsInput input) (NewRequest SetSecrets_query))"

definition UnsetSecrets_request :: "string \<Rightarrow> string list \<Rightarrow> Request" where
  "UnsetSecrets_request appName keys =
     Var ''input''
       (VUnsetSecretsInput \<lparr>UnsetSecretsInput_AppID = appName, UnsetSecretsInput_Keys = keys\<rparr>)
       (NewRequest UnsetSecrets_query)"

definition GetAppSecrets_request :: "string \<Rightarrow> Request" where
  "GetAppSecrets_request appName =
     Var ''appName'' (VString appName) (NewRequest GetAppSecrets_query)"

definition CreateApp_request :: "string \<Rightarrow> string \<Rightarrow> Request" where
  "CreateApp_request name orgId =
     Var ''input''
       (VCreateAppInput
          \<lparr>CreateAppInput_OrganizationID = orgId,
           CreateAppInput_Runtime = ''FIRECRACKER'',
           CreateAppInput_Name = name\<rparr>)
       (NewRequest CreateApp_query)"

definition GetAppWithTasks_request :: "string \<Rightarrow> Request" where
  "GetAppWithTasks_request appName =
     Var ''appName'' (VString appName) (NewRequest GetAppWithTasks_query)"

definition CreateSignedUrls_request :: "string \<Rightarrow> string \<Rightarrow> Request" where
  "CreateSignedUrls_request appId filename =
     Var ''filename'' (VString filename)
       (Var ''appId'' (VString appId) (NewRequest CreateSignedUrls_query))"

definition CreateBuild_request :: "string \<Rightarrow> string \<Rightarrow> string \<Rightarrow> Request" where
  "CreateBuild_request appId sourceUrl sourceType =
     Var ''sourceType'' (VString sourceType)
       (Var ''sourceUrl'' (VString sourceUrl)
          (Var ''appId'' (VString appId) (NewRequest CreateBuild_query)))"

definition ListBuilds_request :: "string \<Rightarrow> Request" where
  "ListBuilds_request appName =
     Var ''appName'' (VString appName) (NewRequest ListBuilds_query)"

definition GetBuild_request :: "string \<Rightarrow> Request" where
  "GetBuild_request buildId = Var ''id'' (VString buildId) (NewRequest GetBuild_query)"

definition GetDNSZones_request :: "string \<Rightarrow> Request" where
  "GetDNSZones_request slug = Var ''slug'' (VString slug) (NewRequest GetDNSZones_query)"

definition FindDNSZone_request :: "string \<Rightarrow> string \<Rightarrow> Request" where
  "FindDNSZone_request organizationSlug domain =
     Var ''domain'' (VString domain)
       (Var ''slug'' (VString organizationSlug) (NewRequest FindDNSZone_query))"

definition CreateDNSZone_request :: "string \<Rightarrow> string \<Rightarrow> Request" where
  "CreateDNSZone_request organizationID domain =
     Var ''input''
       (VMap [''organizationId'' \<mapsto> VString organizationID, ''domain'' \<mapsto> VString domain])
       (NewRequest CreateDNSZone_query)"

definition DeleteDNSZone_request :: "string \<Rightarrow> Request" where
  "DeleteDNSZone_request zoneID =
     Var ''input'' (VMap [''dnsZoneId'' \<mapsto> VString zoneID]) (NewRequest DeleteDNSZone_query)"

definition GetDNSRecords_request :: "string \<Rightarrow> Request" where
  "GetDNSRecords_request zoneID =
     Var ''zoneId'' (VString zoneID) (NewRequest GetDNSRecords_query)"

definition ExportDNSRecords_request :: "string \<Rightarrow> Request" where
  "ExportDNSRecords_request zoneID =
     Var ''input'' (VMap [''dnsZoneId'' \<mapsto> VString zoneID])
       (NewRequest ExportDNSRecords_query)"

definition ImportDNSRecords_request :: "string \<Rightarrow> string \<Rightarrow> Request" where
  "ImportDNSRecords_request zoneID zonefile =
     Var ''input''
       (VMap [''dnsZoneId'' \<mapsto> VString zoneID, ''zonefile'' \<mapsto> VString zonefile])
       (NewRequest ImportDNSRecords_query)"

definition GetWireGuardPeerStatus_request :: "string \<Rightarrow> string \<Rightarrow> Request" where
  "GetWireGuardPeerStatus_request slug name =
     Var ''name'' (VString name)
       (Var ''slug'' (VString slug) (NewRequest GetWireGuardPeerStatus_query))"

definition GetWireGuardPeer_request :: "string \<Rightarrow> string \<Rightarrow> Request" where
  "GetWireGuardPeer_request slug name =
     Var ''name'' (VString name)
       (Var ''slug'' (VString slug) (NewRequest GetWireGuardPeer_query))"

definition GetWireGuardPeers_request :: "string \<Rightarrow> Request" where
  "GetWireGuardPeers_request slug =
     Var ''slug'' (VString slug) (NewRequest GetWireGuardPeers_query)"

text \<open>
  \<open>CreateWireGuardPeer\<close> reads the environment: \<open>getenv\<close> is \<open>os.Getenv\<close>. (With the
  flag set it also prints a line on standard output, which is not part of the request.)
\<close>

definition CreateWireGuardPeer_request ::
  "(string \<Rightarrow> string) \<Rightarrow> Organization option \<Rightarrow> string \<Rightarrow> string \<Rightarrow> string \<Rightarrow> Request outcome" where
  "CreateWireGuardPeer_request getenv org region name pubkey =
     (let req = NewRequest CreateWireGuardPeer_query;
          nats = (if getenv ''WG_NATS'' \<noteq> '''' then True else False)
      in case org of
           None \<Rightarrow> Panics
         | Some og \<Rightarrow>
             (let inputs = [''organizationId'' \<mapsto> VString (Organization_ID og),
                            ''name'' \<mapsto> VString name,
                            ''pubkey'' \<mapsto> VString pubkey,
                            ''nats'' \<mapsto> VBool nats];
                  inputs = (if region \<noteq> '''' then inputs(''region'' \<mapsto> VString region)
                            else inputs)
              in Returns (Var ''input'' (VMap inputs) req)))"

definition RemoveWireGuardPeer_request :: "Organization option \<Rightarrow> string \<Rightarrow> Request outcome" where
  "RemoveWireGuardPeer_request org name =
     (let req = NewRequest RemoveWireGuardPeer_query
      in case org of
           None \<Rightarrow> Panics
         | Some og \<Rightarrow>
             Returns (Var ''input''
               (VMap [''organizationId'' \<mapsto> VString (Organization_ID og),
                      ''name'' \<mapsto> VString name]) req))"

definition CreateDelegatedWireGuardToken_request ::
  "Organization option \<Rightarrow> string \<Rightarrow> Request outcome" where
  "CreateDelegatedWireGuardToken_request org name =
     (let req = NewRequest CreateDelegatedWireGuardToken_query
      in case org of
           None \<Rightarrow> Panics
         | Some og \<Rightarrow>
             Returns (Var ''input''
               (VMap [''organizationId'' \<mapsto> VString (Organization_ID og),
                      ''name'' \<mapsto> VString name]) req))"

text \<open>
  \<open>DeleteDelegatedWireGuardToken\<close> takes two \<open>*string\<close>: it binds the name when the name
  is given and the token otherwise, and panics when both are nil. (It also prints the
  input on standard output.)
\<close>

definition DeleteDelegatedWireGuardToken_request ::
  "Organization option \<Rightarrow> string option \<Rightarrow> string option \<Rightarrow> Request outcome" where
  "DeleteDelegatedWireGuardToken_request org name token =
     (case org of
        None \<Rightarrow> Panics
      | Some og \<Rightarrow>
          (let input = [''organizationId'' \<mapsto> VString (Organization_ID og)]
           in case name of
                Some n \<Rightarrow>
                  Returns (Var ''input'' (VMap (input(''name'' \<mapsto> VString n)))
                    (NewRequest DeleteDelegatedWireGuardToken_query))
              | None \<Rightarrow>
                  (case token of
                     None \<Rightarrow> Panics
                   | Some t \<Rightarrow>
                       Returns (Var ''input'' (VMap (input(''token'' \<mapsto> VString t)))
                         (NewRequest DeleteDelegatedWireGuardToken_query)))))"

definition GetDelegatedWireGuardTokens_request :: "string \<Rightarrow> Request" where
  "GetDelegatedWireGuardTokens_request slug =
     Var ''slug'' (VString slug) (NewRequest GetDelegatedWireGuardTokens_query)"

definition ClosestWireguardGatewayRegion_request :: Request where
  "ClosestWireguardGatewayRegion_request = NewRequest ClosestWireguardGatewayRegion_query"

definition ValidateWireGuardPeers_request :: "string list \<Rightarrow> Request" where
  "ValidateWireGuardPeers_request peerIPs =
     Var ''input'' (VMap [''peerIps'' \<mapsto> VStrings peerIPs])
       (NewRequest ValidateWireGuardPeers_query)"

definition GetLoggedCertificates_request :: "string \<Rightarrow> Request" where
  "GetLoggedCertificates_request slug =
     Var ''slug'' (VString slug) (NewRequest GetLoggedCertificates_query)"

definition EstablishSSHKey_request :: "Organization option \<Rightarrow> bool \<Rightarrow> Request outcome" where
  "EstablishSSHKey_request org override =
     (let req = NewRequest EstablishSSHKey_query
      in case org of
           None \<Rightarrow> Panics
         | Some og \<Rightarrow>
             Returns (Var ''input''
               (VMap [''organizationId'' \<mapsto> VString (Organization_ID og),
                      ''override'' \<mapsto> VBool override]) req))"

definition IssueSSHCertificate_request ::
  "Organization option \<Rightarrow> string \<Rightarrow> string option \<Rightarrow> int option \<Rightarrow> Request outcome" where
  "IssueSSHCertificate_request org email username valid_hours =
     (let req = NewRequest IssueSSHCertificate_query
      in case org of
           None \<Rightarrow> Panics
         | Some og \<Rightarrow>
             (let inputs = [''organizationId'' \<mapsto> VString (Organization_ID og),
                            ''email'' \<mapsto> VString email];
                  inputs = (case username of
                              Some u \<Rightarrow> inputs(''username'' \<mapsto> VString u)
                            | None \<Rightarrow> inputs);
                  inputs = (case valid_hours of
                              Some h \<Rightarrow> inputs(''validHours'' \<mapsto> VInt h)
                            | None \<Rightarrow> inputs)
              in Returns (Var ''input'' (VMap inputs) req)))"

definition PlatformRegions_request :: Request where
  "PlatformRegions_request = NewRequest PlatformRegions_query"

definition PlatformRegionsAll_request :: Request where
  "PlatformRegionsAll_request = NewRequest PlatformRegionsAll_query"

definition PlatformVMSizes_request :: Request where
  "PlatformVMSizes_request = NewRequest PlatformVMSizes_query"

text \<open>
  The declarations of \<open>DeployImageInput\<close> and of \<open>Definition\<close> are not among the sources:
  the value the caller passes is bound as it is.
\<close>

definition DeployImage_v2_request :: "gvalue \<Rightarrow> Request" where
  "DeployImage_v2_request input = Var ''input'' input (NewRequest DeployImage_v2_query)"

definition GetDeploymentStatus_request :: "string \<Rightarrow> string \<Rightarrow> Request" where
  "GetDeploymentStatus_request appName deploymentID =
     Var ''deploymentId'' (VString deploymentID)
       (Var ''appName'' (VString appName) (NewRequest GetDeploymentStatus_query))"

definition GetConfig_request :: "string \<Rightarrow> Request" where
  "GetConfig_request appName =
     Var ''appName'' (VString appName) (NewRequest GetConfig_query)"

definition ParseConfig_request :: "string \<Rightarrow> gvalue \<Rightarrow> Request" where
  "ParseConfig_request appName defn =
     Var ''definition'' defn
       (Var ''appName'' (VString appName) (NewRequest ParseConfig_query))"

definition ValidateConfig_request :: "string \<Rightarrow> gvalue \<Rightarrow> Request" where
  "ValidateConfig_request appName defn =
     Var ''definition'' defn (NewRequest ValidateConfig_query)"

subsection \<open>Operations and calls\<close>

text \<open>
  An \<open>operation\<close> names one of the exported GraphQL functions; a \<open>call\<close> is an
  operation with the arguments of its Go signature. \<open>request_of getenv call\<close> is the
  request the call builds in an environment \<open>getenv\<close>.
\<close>

datatype operation =
    Op_GetCurrentUser
  | Op_GetOrganizations
  | Op_DeployImage
  | Op_GetApps
  | Op_GetApp
  | Op_GetAppReleases
  | Op_SetSecrets
  | Op_UnsetSecrets
  | Op_GetAppSecrets
  | Op_CreateApp
  | Op_GetAppWithTasks
  | Op_CreateSignedUrls
  | Op_CreateBuild
  | Op_ListBuilds
  | Op_GetBuild
  | Op_GetDNSZones
  | Op_FindDNSZone
  | Op_CreateDNSZone
  | Op_DeleteDNSZone
  | Op_GetDNSRecords
  | Op_ExportDNSRecords
  | Op_ImportDNSRecords
  | Op_GetWireGuardPeerStatus
  | Op_GetWireGuardPeer
  | Op_GetWireGuardPeers
  | Op_CreateWireGuardPeer
  | Op_RemoveWireGuardPeer
  | Op_CreateDelegatedWireGuardToken
  | Op_DeleteDelegatedWireGuardToken
  | Op_GetDelegatedWireGuardTokens
  | Op_ClosestWireguardGatewayRegion
  | Op_ValidateWireGuardPeers
  | Op_GetLoggedCertificates
  | Op_EstablishSSHKey
  | Op_IssueSSHCertificate
  | Op_PlatformRegions
  | Op_PlatformRegionsAll
  | Op_PlatformVMSizes
  | Op_DeployImage_v2
  | Op_GetDeploymentStatus
  | Op_GetConfig
  | Op_ParseConfig
  | Op_ValidateConfig

datatype call =
    Call_GetCurrentUser
  | Call_GetOrganizations
  | Call_DeployImage string string
  | Call_GetApps
  | Call_GetApp string
  | Call_GetAppReleases string int
  | Call_SetSecrets string "(string \<times> string) list"
  | Call_UnsetSecrets string "string list"
  | Call_GetAppSecrets string
  | Call_CreateApp string string
  | Call_GetAppWithTasks string
  | Call_CreateSignedUrls string string
  | Call_CreateBuild string string string
  | Call_ListBuilds string
  | Call_GetBuild string
  | Call_GetDNSZones string
  | Call_FindDNSZone string string
  | Call_CreateDNSZone string string
  | Call_DeleteDNSZone string
  | Call_GetDNSRecords string
  | Call_ExportDNSRecords string
  | Call_ImportDNSRecords string string
  | Call_GetWireGuardPeerStatus go_context string string
  | Call_GetWireGuardPeer go_context string string
  | Call_GetWireGuardPeers go_context string
  | Call_CreateWireGuardPeer go_context "Organization option" string string string
  | Call_RemoveWireGuardPeer go_context "Organization option" string
  | Call_CreateDelegatedWireGuardToken go_context "Organization option" string
  | Call_DeleteDelegatedWireGuardToken go_context "Organization option" "string option" "string option"
  | Call_GetDelegatedWireGuardTokens go_context string
  | Call_ClosestWireguardGatewayRegion go_context
  | Call_ValidateWireGuardPeers go_context "string list"
  | Call_GetLoggedCertificates go_context string
  | Call_EstablishSSHKey go_context "Organization option" bool
  | Call_IssueSSHCertificate go_context "Organization option" string "string option" "int option"
  | Call_PlatformRegions
  | Call_PlatformRegionsAll
  | Call_PlatformVMSizes
  | Call_DeployImage_v2 gvalue
  | Call_GetDeploymentStatus string string
  | Call_GetConfig go_context string
  | Call_ParseConfig go_context string gvalue
  | Call_ValidateConfig go_context string gvalue

fun operation_of :: "call \<Rightarrow> operation" where
  "operation_of Call_GetCurrentUser = Op_GetCurrentUser"
| "operation_of Call_GetOrganizations = Op_GetOrganizations"
| "operation_of (Call_DeployImage a b) = Op_DeployImage"
| "operation_of Call_GetApps = Op_GetApps"
| "operation_of (Call_GetApp a) = Op_GetApp"
| "operation_of (Call_GetAppReleases a b) = Op_GetAppReleases"
| "operation_of (Call_SetSecrets a b) = Op_SetSecrets"
| "operation_of (Call_UnsetSecrets a b) = Op_UnsetSecrets"
| "operation_of (Call_GetAppSecrets a) = Op_GetAppSecrets"
| "operation_of (Call_CreateApp a b) = Op_CreateApp"
| "operation_of (Call_GetAppWithTasks a) = Op_GetAppWithTasks"
| "operation_of (Call_CreateSignedUrls a b) = Op_CreateSignedUrls"
| "operation_of (Call_CreateBuild a b c) = Op_CreateBuild"
| "operation_of (Call_ListBuilds a) = Op_ListBuilds"
| "operation_of (Call_GetBuild a) = Op_GetBuild"
| "operation_of (Call_GetDNSZones a) = Op_GetDNSZones"
| "operation_of (Call_FindDNSZone a b) = Op_FindDNSZone"
| "operation_of (Call_CreateDNSZone a b) = Op_CreateDNSZone"
| "operation_of (Call_DeleteDNSZone a) = Op_DeleteDNSZone"
| "operation_of (Call_GetDNSRecords a) = Op_GetDNSRecords"
| "operation_of (Call_ExportDNSRecords a) = Op_ExportDNSRecords"
| "operation_of (Call_ImportDNSRecords a b) = Op_ImportDNSRecords"
| "operation_of (Call_GetWireGuardPeerStatus a b c) = Op_GetWireGuardPeerStatus"
| "operation_of (Call_GetWireGuardPeer a b c) = Op_GetWireGuardPeer"
| "operation_of (Call_GetWireGuardPeers a b) = Op_GetWireGuardPeers"
| "operation_of (Call_CreateWireGuardPeer a b c d e) = Op_CreateWireGuardPeer"
| "operation_of (Call_RemoveWireGuardPeer a b c) = Op_RemoveWireGuardPeer"
| "operation_of (Call_CreateDelegatedWireGuardToken a b c) = Op_CreateDelegatedWireGuardToken"
| "operation_of (Call_DeleteDelegatedWireGuardToken a b c d) = Op_DeleteDelegatedWireGuardToken"
| "operation_of (Call_GetDelegatedWireGuardTokens a b) = Op_GetDelegatedWireGuardTokens"
| "operation_of (Call_ClosestWireguardGatewayRegion a) = Op_ClosestWireguardGatewayRegion"
| "operation_of (Call_ValidateWireGuardPeers a b) = Op_ValidateWireGuardPeers"
| "operation_of (Call_GetLoggedCertificates a b) = Op_GetLoggedCertificates"
| "operation_of (Call_EstablishSSHKey a b c) = Op_EstablishSSHKey"
| "operation_of (Call_IssueSSHCertificate a b c d e) = Op_IssueSSHCertificate"
| "operation_of Call_PlatformRegions = Op_PlatformRegions"
| "operation_of Call_PlatformRegionsAll = Op_PlatformRegionsAll"
| "operation_of Call_PlatformVMSizes = Op_PlatformVMSizes"
| "operation_of (Call_DeployImage_v2 a) = Op_DeployImage_v2"
| "operation_of (Call_GetDeploymentStatus a b) = Op_GetDeploymentStatus"
| "operation_of (Call_GetConfig a b) = Op_GetConfig"
| "operation_of (Call_ParseConfig a b c) = Op_ParseConfig"
| "operation_of (Call_ValidateConfig a b c) = Op_ValidateConfig"

fun request_of :: "(string \<Rightarrow> string) \<Rightarrow> call \<Rightarrow> Request outcome" where
  "request_of getenv Call_GetCurrentUser = Returns GetCurrentUser_request"
| "request_of getenv Call_GetOrganizations = Returns GetOrganizations_request"
| "request_of getenv (Call_DeployImage a b) = Returns (DeployImage_request a b)"
| "request_of getenv Call_GetApps = Returns GetApps_request"
| "request_of getenv (Call_GetApp a) = Returns (GetApp_request a)"
| "request_of getenv (Call_GetAppReleases a b) = Returns (GetAppReleases_request a b)"
| "request_of getenv (Call_SetSecrets a b) = Returns (SetSecrets_request a b)"
| "request_of getenv (Call_UnsetSecrets a b) = Returns (UnsetSecrets_request a b)"
| "request_of getenv (Call_GetAppSecrets a) = Returns (GetAppSecrets_request a)"
| "request_of getenv (Call_CreateApp a b) = Returns (CreateApp_request a b)"
| "request_of getenv (Call_GetAppWithTasks a) = Returns (GetAppWithTasks_request a)"
| "request_of getenv (Call_CreateSignedUrls a b) = Returns (CreateSignedUrls_request a b)"
| "request_of getenv (Call_CreateBuild a b c) = Returns (CreateBuild_request a b c)"
| "request_of getenv (Call_ListBuilds a) = Returns (ListBuilds_request a)"
| "request_of getenv (Call_GetBuild a) = Returns (GetBuild_request a)"
| "request_of getenv (Call_GetDNSZones a) = Returns (GetDNSZones_request a)"
| "request_of getenv (Call_FindDNSZone a b) = Returns (FindDNSZone_request a b)"
| "request_of getenv (Call_CreateDNSZone a b) = Returns (CreateDNSZone_request a b)"
| "request_of getenv (Call_DeleteDNSZone a) = Returns (DeleteDNSZone_request a)"
| "request_of getenv (Call_GetDNSRecords a) = Returns (GetDNSRecords_request a)"
| "request_of getenv (Call_ExportDNSRecords a) = Returns (ExportDNSRecords_request a)"
| "request_of getenv (Call_ImportDNSRecords a b) = Returns (ImportDNSRecords_request a b)"
| "request_of getenv (Call_GetWireGuardPeerStatus a b c) = Returns (GetWireGuardPeerStatus_request b c)"
| "request_of getenv (Call_GetWireGuardPeer a b c) = Returns (GetWireGuardPeer_request b c)"
| "request_of getenv (Call_GetWireGuardPeers a b) = Returns (GetWireGuardPeers_request b)"
| "request_of getenv (Call_CreateWireGuardPeer a b c d e) = CreateWireGuardPeer_request getenv b c d e"
| "request_of getenv (Call_RemoveWireGuardPeer a b c) = RemoveWireGuardPeer_request b c"
| "request_of getenv (Call_CreateDelegatedWireGuardToken a b c) = CreateDelegatedWireGuardToken_request b c"
| "request_of getenv (Call_DeleteDelegatedWireGuardToken a b c d) = DeleteDelegatedWireGuardToken_request b c d"
| "request_of getenv (Call_GetDelegatedWireGuardTokens a b) = Returns (GetDelegatedWireGuardTokens_request b)"
| "request_of getenv (Call_ClosestWireguardGatewayRegion a) = Returns ClosestWireguardGatewayRegion_request"
| "request_of getenv (Call_ValidateWireGuardPeers a b) = Returns (ValidateWireGuardPeers_request b)"
| "request_of getenv (Call_GetLoggedCertificates a b) = Returns (GetLoggedCertificates_request b)"
| "request_of getenv (Call_EstablishSSHKey a b c) = EstablishSSHKey_request b c"
| "request_of getenv (Call_IssueSSHCertificate a b c d e) = IssueSSHCertificate_request b c d e"
| "request_of getenv Call_PlatformRegions = Returns PlatformRegions_request"
| "request_of getenv Call_PlatformRegionsAll = Returns PlatformRegionsAll_request"
| "request_of getenv Call_PlatformVMSizes = Returns PlatformVMSizes_request"
| "request_of getenv (Call_DeployImage_v2 a) = Returns (DeployImage_v2_request a)"
| "request_of getenv (Call_GetDeploymentStatus a b) = Returns (GetDeploymentStatus_request a b)"
| "request_of getenv (Call_GetConfig a b) = Returns (GetConfig_request b)"
| "request_of getenv (Call_ParseConfig a b c) = Returns (ParseConfig_request b c)"
| "request_of getenv (Call_ValidateConfig a b c) = Returns (ValidateConfig_request b c)"

subsection \<open>Executing and projecting\<close>

text \<open>
  The accessors below are modelled whole: build the request, run it, return the error of
  the transport when there is one, otherwise project the envelope. Reading a field through
  a nil pointer, or dereferencing a nil \<open>Nodes\<close>, panics.
\<close>

definition GetApps :: "('r, 'p) Client \<Rightarrow> App list outcome" where
  "GetApps c =
     (case Run c GetApps_request of
        (data, Some err) \<Rightarrow> Fails err
      | (data, None) \<Rightarrow> Returns (Nodes (Query_Apps data)))"

definition GetDNSZones :: "('r, 'p) Client \<Rightarrow> string \<Rightarrow> 'r DNSZone option list outcome" where
  "GetDNSZones c slug =
     (case Run c (GetDNSZones_request slug) of
        (data, Some err) \<Rightarrow> Fails err
      | (data, None) \<Rightarrow>
          (case Query_Organization data of
             None \<Rightarrow> Panics
           | Some org \<Rightarrow>
               (case OrganizationDetails_DNSZones_Nodes org of
                  None \<Rightarrow> Panics
                | Some nodes \<Rightarrow> Returns nodes)))"

definition FindDNSZone :: "('r, 'p) Client \<Rightarrow> string \<Rightarrow> string \<Rightarrow> 'r DNSZone outcome" where
  "FindDNSZone c organizationSlug domain =
     (case Run c (FindDNSZone_request organizationSlug domain) of
        (data, Some err) \<Rightarrow> Fails err
      | (data, None) \<Rightarrow>
          (case Query_Organization data of
             None \<Rightarrow> Fails ErrNotFound
           | Some org \<Rightarrow>
               (case OrganizationDetails_DNSZone org of
                  None \<Rightarrow> Fails ErrNotFound
                | Some zone \<Rightarrow> Returns zone)))"

definition GetDNSRecords :: "('r, 'p) Client \<Rightarrow> string \<Rightarrow> 'r option list outcome" where
  "GetDNSRecords c zoneID =
     (case Run c (GetDNSRecords_request zoneID) of
        (data, Some err) \<Rightarrow> Fails err
      | (data, None) \<Rightarrow>
          (case Query_DNSZone data of
             None \<Rightarrow> Fails ErrNotFound
           | Some zone \<Rightarrow>
               (case DNSZone_Records_Nodes zone of
                  None \<Rightarrow> Panics
                | Some nodes \<Rightarrow> Returns nodes)))"

definition GetWireGuardPeers ::
  "('r, 'p) Client \<Rightarrow> go_context \<Rightarrow> string \<Rightarrow> 'p option list outcome" where
  "GetWireGuardPeers c ctx slug =
     (case RunWithContext c ctx (GetWireGuardPeers_request slug) of
        (data, Some err) \<Rightarrow> Fails err
      | (data, None) \<Rightarrow>
          (case Query_Organization data of
             None \<Rightarrow> Panics
           | Some org \<Rightarrow>
               (case OrganizationDetails_WireGuardPeers_Nodes org of
                  None \<Rightarrow> Panics
                | Some nodes \<Rightarrow> Returns nodes)))"

section \<open>Session bootstrap: \<open>GetAccessToken\<close>\<close>

text \<open>
  \<open>http.Post\<close> either fails with a transport error or yields a response with a status
  code and a body.
\<close>

datatype http_result = HttpError error | HttpResponse int string

text \<open>
  The target of the decoder is a \<open>map[string]map[string]map[string]string\<close>; a nil map
  and a missing key both read as the zero value.
\<close>

type_synonym token_map = "string \<Rightarrow> (string \<Rightarrow> (string \<Rightarrow> string option) option) option"

definition access_token_of :: "token_map \<Rightarrow> string" where
  "access_token_of result =
     (case result ''data'' of
        None \<Rightarrow> ''''
      | Some d \<Rightarrow>
          (case d ''attributes'' of
             None \<Rightarrow> ''''
           | Some a \<Rightarrow> (case a ''access_token'' of None \<Rightarrow> '''' | Some t \<Rightarrow> t)))"

definition sessions_post_data :: "string \<Rightarrow> string \<Rightarrow> string \<Rightarrow> gvalue" where
  "sessions_post_data email password otp =
     VMap [''data'' \<mapsto>
       VMap [''attributes'' \<mapsto>
         VMap [''email'' \<mapsto> VString email,
               ''password'' \<mapsto> VString password,
               ''otp'' \<mapsto> VString otp]]]"

text \<open>
  \<open>GetAccessToken\<close>, with the process-wide \<open>baseURL\<close>, \<open>http.Post\<close> and the JSON decoder
  as parameters. \<open>post url contentType body\<close> is the HTTP exchange; the body is given as
  the value \<open>json.Marshal\<close> serialises. \<open>decode body\<close> is
  \<open>json.NewDecoder(resp.Body).Decode(&result)\<close> on a nil \<open>result\<close>: it gives the map as
  the decoder leaves it and the error the decoder returns. A decoder that rejects the body
  before it stores anything leaves the nil map. The source ignores the error. The decoder
  of the standard library is \<open>Decode\<close>, in the next section.
\<close>

definition GetAccessToken ::
  "string \<Rightarrow> (string \<Rightarrow> string \<Rightarrow> gvalue \<Rightarrow> http_result)
     \<Rightarrow> (string \<Rightarrow> token_map \<times> error option)
     \<Rightarrow> string \<Rightarrow> string \<Rightarrow> string \<Rightarrow> string \<times> error option" where
  "GetAccessToken baseURL post decode email password otp =
     (case post (baseURL @ ''/api/v1/sessions'') ''application/json''
             (sessions_post_data email password otp) of
        HttpError err \<Rightarrow> ('''', Some err)
      | HttpResponse status body \<Rightarrow>
          if status \<ge> 500 then
            ('''', Some (ErrorString ''An unknown server error occured, please try again''))
          else if status \<ge> 400 then
            ('''', Some (ErrorString ''Incorrect email and password combination''))
          else
            (let result = fst (decode body)
             in (access_token_of result, None)))"

text \<open>
  In the words of the specification: a decoded body lacks the access token when the path
  \<open>data\<close>, \<open>attributes\<close>, \<open>access_token\<close> does not lead to a string.
\<close>

definition lacks_access_token :: "token_map \<Rightarrow> bool" where
  "lacks_access_token result =
     (case result ''data'' of
        None \<Rightarrow> True
      | Some d \<Rightarrow>
          (case d ''attributes'' of
             None \<Rightarrow> True
           | Some a \<Rightarrow> a ''access_token'' = None))"

section \<open>The JSON decoder of the standard library\<close>

text \<open>
  \<open>json.NewDecoder(body).Decode(&result)\<close> as \<open>encoding/json\<close> does it, for a \<open>result\<close> of
  type \<open>map[string]map[string]map[string]string\<close> that starts nil: the scanner is the
  state machine of \<open>scanner.go\<close>, state function by state function; \<open>readValue\<close> runs it
  over the body up to the end of the first JSON value; that value is then stored into the
  map. \<open>Valid\<close> is \<open>json.Valid\<close>: the same scanner run over the whole body.
\<close>

subsection \<open>Bytes\<close>

definition byte :: "char \<Rightarrow> nat" where
  "byte c = of_char c"

definition isSpace :: "char \<Rightarrow> bool" where
  "isSpace c = (c = CHR 0x20 \<or> c = CHR 0x09 \<or> c = CHR 0x0D \<or> c = CHR 0x0A)"

definition isDigit :: "char \<Rightarrow> bool" where
  "isDigit c = (48 \<le> byte c \<and> byte c \<le> 57)"

definition isHex :: "char \<Rightarrow> bool" where
  "isHex c = (isDigit c \<or> (97 \<le> byte c \<and> byte c \<le> 102) \<or> (65 \<le> byte c \<and> byte c \<le> 70))"

subsection \<open>The scanner\<close>

text \<open>
  A scanner holds the state function to run on the next byte (\<open>step\<close>), whether the
  top-level value has ended, the stack of the values being scanned (innermost first), and
  whether an error has been recorded. A step returns an opcode.
\<close>

datatype scan_state =
    BeginValue | BeginValueOrEmpty | BeginStringOrEmpty | BeginString | EndValue | EndTop
  | InString | InStringEsc | InStringEscU | InStringEscU1 | InStringEscU12 | InStringEscU123
  | Neg | State1 | State0 | Dot | Dot0 | StateE | ESign | E0
  | StateT | Tr | Tru | StateF | Fa | Fal | Fals | StateN | Nu | Nul
  | StateError

datatype parse_state = parseObjectKey | parseObjectValue | parseArrayValue

datatype opcode =
    scanContinue | scanBeginLiteral | scanBeginObject | scanObjectKey | scanObjectValue
  | scanEndObject | scanBeginArray | scanArrayValue | scanEndArray | scanSkipSpace
  | scanEnd | scanError

record scanner =
  scanner_step :: scan_state
  scanner_endTop :: bool
  scanner_parseState :: "parse_state list"
  scanner_err :: bool

definition scanner_reset :: scanner where
  "scanner_reset =
     \<lparr>scanner_step = BeginValue, scanner_endTop = False, scanner_parseState = [],
      scanner_err = False\<rparr>"

definition maxNestingDepth :: nat where
  "maxNestingDepth = 10000"

definition scanner_error :: "scanner \<Rightarrow> opcode \<times> scanner" where
  "scanner_error s = (scanError, s\<lparr>scanner_step := StateError, scanner_err := True\<rparr>)"

definition continue_in :: "scan_state \<Rightarrow> scanner \<Rightarrow> opcode \<times> scanner" where
  "continue_in st s = (scanContinue, s\<lparr>scanner_step := st\<rparr>)"

definition pushParseState :: "scanner \<Rightarrow> parse_state \<Rightarrow> opcode \<Rightarrow> opcode \<times> scanner" where
  "pushParseState s newParseState successState =
     (let s' = s\<lparr>scanner_parseState := newParseState # scanner_parseState s\<rparr>
      in if length (scanner_parseState s') \<le> maxNestingDepth then (successState, s')
         else scanner_error s')"

definition popParseState :: "scanner \<Rightarrow> scanner" where
  "popParseState s =
     (let ps = tl (scanner_parseState s)
      in if ps = [] then s\<lparr>scanner_parseState := ps, scanner_step := EndTop, scanner_endTop := True\<rparr>
         else s\<lparr>scanner_parseState := ps, scanner_step := EndValue\<rparr>)"

text \<open>
  \<open>stateEndTop\<close> records the error of a byte that follows the top-level value, but it
  returns \<open>scanEnd\<close>: the complaint comes with the next call.
\<close>

definition stateEndTop :: "scanner \<Rightarrow> char \<Rightarrow> opcode \<times> scanner" where
  "stateEndTop s c =
     (if isSpace c then (scanEnd, s) else (scanEnd, snd (scanner_error s)))"

definition stateEndValue :: "scanner \<Rightarrow> char \<Rightarrow> opcode \<times> scanner" where
  "stateEndValue s c =
     (case scanner_parseState s of
        [] \<Rightarrow> stateEndTop (s\<lparr>scanner_step := EndTop, scanner_endTop := True\<rparr>) c
      | ps # rest \<Rightarrow>
          if isSpace c then (scanSkipSpace, s\<lparr>scanner_step := EndValue\<rparr>)
          else
            (case ps of
               parseObjectKey \<Rightarrow>
                 if c = CHR '':'' then
                   (scanObjectKey,
                    s\<lparr>scanner_parseState := parseObjectValue # rest, scanner_step := BeginValue\<rparr>)
                 else scanner_error s
             | parseObjectValue \<Rightarrow>
                 if c = CHR '','' then
                   (scanObjectValue,
                    s\<lparr>scanner_parseState := parseObjectKey # rest, scanner_step := BeginString\<rparr>)
                 else if c = CHR ''}'' then (scanEndObject, popParseState s)
                 else scanner_error s
             | parseArrayValue \<Rightarrow>
                 if c = CHR '','' then (scanArrayValue, s\<lparr>scanner_step := BeginValue\<rparr>)
                 else if c = CHR '']'' then (scanEndArray, popParseState s)
                 else scanner_error s))"

definition stateBeginValue :: "scanner \<Rightarrow> char \<Rightarrow> opcode \<times> scanner" where
  "stateBeginValue s c =
     (if isSpace c then (scanSkipSpace, s)
      else if c = CHR ''{'' then
        pushParseState (s\<lparr>scanner_step := BeginStringOrEmpty\<rparr>) parseObjectKey scanBeginObject
      else if c = CHR ''['' then
        pushParseState (s\<lparr>scanner_step := BeginValueOrEmpty\<rparr>) parseArrayValue scanBeginArray
      else if c = CHR 0x22 then (scanBeginLiteral, s\<lparr>scanner_step := InString\<rparr>)
      else if c = CHR ''-'' then (scanBeginLiteral, s\<lparr>scanner_step := Neg\<rparr>)
      else if c = CHR ''0'' then (scanBeginLiteral, s\<lparr>scanner_step := State0\<rparr>)
      else if c = CHR ''t'' then (scanBeginLiteral, s\<lparr>scanner_step := StateT\<rparr>)
      else if c = CHR ''f'' then (scanBeginLiteral, s\<lparr>scanner_step := StateF\<rparr>)
      else if c = CHR ''n'' then (scanBeginLiteral, s\<lparr>scanner_step := StateN\<rparr>)
      else if 49 \<le> byte c \<and> byte c \<le> 57 then (scanBeginLiteral, s\<lparr>scanner_step := State1\<rparr>)
      else scanner_error s)"

definition stateBeginValueOrEmpty :: "scanner \<Rightarrow> char \<Rightarrow> opcode \<times> scanner" where
  "stateBeginValueOrEmpty s c =
     (if isSpace c then (scanSkipSpace, s)
      else if c = CHR '']'' then stateEndValue s c
      else stateBeginValue s c)"

definition stateBeginString :: "scanner \<Rightarrow> char \<Rightarrow> opcode \<times> scanner" where
  "stateBeginString s c =
     (if isSpace c then (scanSkipSpace, s)
      else if c = CHR 0x22 then (scanBeginLiteral, s\<lparr>scanner_step := InString\<rparr>)
      else scanner_error s)"

definition stateBeginStringOrEmpty :: "scanner \<Rightarrow> char \<Rightarrow> opcode \<times> scanner" where
  "stateBeginStringOrEmpty s c =
     (if isSpace c then (scanSkipSpace, s)
      else if c = CHR ''}'' then
        stateEndValue (s\<lparr>scanner_parseState := parseObjectValue # tl (scanner_parseState s)\<rparr>) c
      else stateBeginString s c)"

definition stateInString :: "scanner \<Rightarrow> char \<Rightarrow> opcode \<times> scanner" where
  "stateInString s c =
     (if c = CHR 0x22 then continue_in EndValue s
      else if c = CHR 0x5C then continue_in InStringEsc s
      else if byte c < 32 then scanner_error s
      else (scanContinue, s))"

definition stateInStringEsc :: "scanner \<Rightarrow> char \<Rightarrow> opcode \<times> scanner" where
  "stateInStringEsc s c =
     (if c \<in> set [CHR ''b'', CHR ''f'', CHR ''n'', CHR ''r'', CHR ''t'', CHR 0x5C, CHR ''/'',
                   CHR 0x22]
      then continue_in InString s
      else if c = CHR ''u'' then continue_in InStringEscU s
      else scanner_error s)"

definition stateHex :: "scan_state \<Rightarrow> scanner \<Rightarrow> char \<Rightarrow> opcode \<times> scanner" where
  "stateHex next s c = (if isHex c then continue_in next s else scanner_error s)"

definition state0 :: "scanner \<Rightarrow> char \<Rightarrow> opcode \<times> scanner" where
  "state0 s c =
     (if c = CHR ''.'' then continue_in Dot s
      else if c = CHR ''e'' \<or> c = CHR ''E'' then continue_in StateE s
      else stateEndValue s c)"

definition state1 :: "scanner \<Rightarrow> char \<Rightarrow> opcode \<times> scanner" where
  "state1 s c = (if isDigit c then continue_in State1 s else state0 s c)"

definition stateNeg :: "scanner \<Rightarrow> char \<Rightarrow> opcode \<times> scanner" where
  "stateNeg s c =
     (if c = CHR ''0'' then continue_in State0 s
      else if 49 \<le> byte c \<and> byte c \<le> 57 then continue_in State1 s
      else scanner_error s)"

definition stateDot :: "scanner \<Rightarrow> char \<Rightarrow> opcode \<times> scanner" where
  "stateDot s c = (if isDigit c then continue_in Dot0 s else scanner_error s)"

definition stateDot0 :: "scanner \<Rightarrow> char \<Rightarrow> opcode \<times> scanner" where
  "stateDot0 s c =
     (if isDigit c then (scanContinue, s)
      else if c = CHR ''e'' \<or> c = CHR ''E'' then continue_in StateE s
      else stateEndValue s c)"

definition stateESign :: "scanner \<Rightarrow> char \<Rightarrow> opcode \<times> scanner" where
  "stateESign s c = (if isDigit c then continue_in E0 s else scanner_error s)"

definition stateE :: "scanner \<Rightarrow> char \<Rightarrow> opcode \<times> scanner" where
  "stateE s c =
     (if c = CHR ''+'' \<or> c = CHR ''-'' then continue_in ESign s else stateESign s c)"

definition stateE0 :: "scanner \<Rightarrow> char \<Rightarrow> opcode \<times> scanner" where
  "stateE0 s c = (if isDigit c then (scanContinue, s) else stateEndValue s c)"

definition stateLetter :: "char \<Rightarrow> scan_state \<Rightarrow> scanner \<Rightarrow> char \<Rightarrow> opcode \<times> scanner" where
  "stateLetter expected next s c = (if c = expected then continue_in next s else scanner_error s)"

text \<open>One step of the scanner: the state function held in \<open>step\<close>, run on the byte.\<close>

definition scan_step :: "scanner \<Rightarrow> char \<Rightarrow> opcode \<times> scanner" where
  "scan_step s c =
     (case scanner_step s of
        BeginValue \<Rightarrow> stateBeginValue s c
      | BeginValueOrEmpty \<Rightarrow> stateBeginValueOrEmpty s c
      | BeginStringOrEmpty \<Rightarrow> stateBeginStringOrEmpty s c
      | BeginString \<Rightarrow> stateBeginString s c
      | EndValue \<Rightarrow> stateEndValue s c
      | EndTop \<Rightarrow> stateEndTop s c
      | InString \<Rightarrow> stateInString s c
      | InStringEsc \<Rightarrow> stateInStringEsc s c
      | InStringEscU \<Rightarrow> stateHex InStringEscU1 s c
      | InStringEscU1 \<Rightarrow> stateHex InStringEscU12 s c
      | InStringEscU12 \<Rightarrow> stateHex InStringEscU123 s c
      | InStringEscU123 \<Rightarrow> stateHex InString s c
      | Neg \<Rightarrow> stateNeg s c
      | State1 \<Rightarrow> state1 s c
      | State0 \<Rightarrow> state0 s c
      | Dot \<Rightarrow> stateDot s c
      | Dot0 \<Rightarrow> stateDot0 s c
      | StateE \<Rightarrow> stateE s c
      | ESign \<Rightarrow> stateESign s c
      | E0 \<Rightarrow> stateE0 s c
      | StateT \<Rightarrow> stateLetter (CHR ''r'') Tr s c
      | Tr \<Rightarrow> stateLetter (CHR ''u'') Tru s c
      | Tru \<Rightarrow> stateLetter (CHR ''e'') EndValue s c
      | StateF \<Rightarrow> stateLetter (CHR ''a'') Fa s c
      | Fa \<Rightarrow> stateLetter (CHR ''l'') Fal s c
      | Fal \<Rightarrow> stateLetter (CHR ''s'') Fals s c
      | Fals \<Rightarrow> stateLetter (CHR ''e'') EndValue s c
      | StateN \<Rightarrow> stateLetter (CHR ''u'') Nu s c
      | Nu \<Rightarrow> stateLetter (CHR ''l'') Nul s c
      | Nul \<Rightarrow> stateLetter (CHR ''l'') EndValue s c
      | StateError \<Rightarrow> (scanError, s))"

text \<open>
  \<open>eof\<close> tells whether the input may end here: an error was recorded, or the top-level
  value has ended, or it ends when a space is fed.
\<close>

definition scanner_eof :: "scanner \<Rightarrow> bool" where
  "scanner_eof s =
     (if scanner_err s then False
      else if scanner_endTop s then True
      else scanner_endTop (snd (scan_step s (CHR 0x20))))"

fun checkValid :: "scanner \<Rightarrow> string \<Rightarrow> bool" where
  "checkValid s [] = scanner_eof s"
| "checkValid s (c # cs) =
     (case scan_step s c of
        (op, s') \<Rightarrow> if op = scanError then False else checkValid s' cs)"

definition Valid :: "string \<Rightarrow> bool" where
  "Valid data = checkValid scanner_reset data"

subsection \<open>String tokens\<close>

text \<open>
  \<open>utf8_sequence s\<close> is the number of bytes of the well-formed multi-byte UTF-8 sequence
  that \<open>s\<close> starts with, and 0 when it starts with none (\<open>utf8.DecodeRune\<close> then gives the
  replacement character and the width 1). \<open>EncodeRune\<close> is \<open>utf8.EncodeRune\<close>.
\<close>

definition continuation :: "char \<Rightarrow> bool" where
  "continuation c = (128 \<le> byte c \<and> byte c \<le> 191)"

definition second_byte_ok :: "nat \<Rightarrow> nat \<Rightarrow> bool" where
  "second_byte_ok b0 b1 =
     (if b0 = 224 then 160 \<le> b1 \<and> b1 \<le> 191
      else if b0 = 237 then 128 \<le> b1 \<and> b1 \<le> 159
      else if b0 = 240 then 144 \<le> b1 \<and> b1 \<le> 191
      else if b0 = 244 then 128 \<le> b1 \<and> b1 \<le> 143
      else 128 \<le> b1 \<and> b1 \<le> 191)"

definition utf8_sequence :: "string \<Rightarrow> nat" where
  "utf8_sequence s =
     (case s of
        c0 # c1 # r \<Rightarrow>
          if 194 \<le> byte c0 \<and> byte c0 \<le> 223 then (if continuation c1 then 2 else 0)
          else if 224 \<le> byte c0 \<and> byte c0 \<le> 239 then
            (case r of
               c2 # _ \<Rightarrow> if second_byte_ok (byte c0) (byte c1) \<and> continuation c2 then 3 else 0
             | [] \<Rightarrow> 0)
          else if 240 \<le> byte c0 \<and> byte c0 \<le> 244 then
            (case r of
               c2 # c3 # _ \<Rightarrow>
                 if second_byte_ok (byte c0) (byte c1) \<and> continuation c2 \<and> continuation c3
                 then 4 else 0
             | _ \<Rightarrow> 0)
          else 0
      | _ \<Rightarrow> 0)"

definition ReplacementChar :: nat where
  "ReplacementChar = 65533"

definition EncodeRune :: "nat \<Rightarrow> string" where
  "EncodeRune r =
     (if r \<le> 127 then [char_of r]
      else if r \<le> 2047 then [char_of (192 + r div 64), char_of (128 + r mod 64)]
      else if r > 1114111 \<or> (55296 \<le> r \<and> r \<le> 57343) then
        [CHR 0xEF, CHR 0xBF, CHR 0xBD]
      else if r \<le> 65535 then
        [char_of (224 + r div 4096), char_of (128 + (r div 64) mod 64), char_of (128 + r mod 64)]
      else
        [char_of (240 + r div 262144), char_of (128 + (r div 4096) mod 64),
         char_of (128 + (r div 64) mod 64), char_of (128 + r mod 64)])"

definition hex_value :: "char \<Rightarrow> nat" where
  "hex_value c =
     (if isDigit c then byte c - 48
      else if 97 \<le> byte c \<and> byte c \<le> 102 then byte c - 97 + 10
      else byte c - 65 + 10)"

text \<open>
  \<open>getu4\<close> reads a \<open>\<close>\<open>uXXXX\<close> escape at the head of a string: its number, or nothing
  (the \<open>-1\<close> of the source).
\<close>

definition getu4 :: "string \<Rightarrow> nat option" where
  "getu4 s =
     (case s of
        b # u # h1 # h2 # h3 # h4 # _ \<Rightarrow>
          if b = CHR 0x5C \<and> u = CHR ''u'' \<and> isHex h1 \<and> isHex h2 \<and> isHex h3 \<and> isHex h4
          then Some (hex_value h1 * 4096 + hex_value h2 * 256 + hex_value h3 * 16 + hex_value h4)
          else None
      | _ \<Rightarrow> None)"

definition IsSurrogate :: "nat \<Rightarrow> bool" where
  "IsSurrogate r = (55296 \<le> r \<and> r < 57344)"

definition utf16_DecodeRune :: "nat \<Rightarrow> nat option \<Rightarrow> nat" where
  "utf16_DecodeRune r1 r2 =
     (case r2 of
        None \<Rightarrow> ReplacementChar
      | Some r2' \<Rightarrow>
          if 55296 \<le> r1 \<and> r1 < 56320 \<and> 56320 \<le> r2' \<and> r2' < 57344
          then (r1 - 55296) * 1024 + (r2' - 56320) + 65536
          else ReplacementChar)"

definition escape_char :: "char \<Rightarrow> char option" where
  "escape_char e =
     (if e = CHR 0x22 \<or> e = CHR 0x5C \<or> e = CHR ''/'' \<or> e = CHR 0x27 then Some e
      else if e = CHR ''b'' then Some (CHR 0x08)
      else if e = CHR ''f'' then Some (CHR 0x0C)
      else if e = CHR ''n'' then Some (CHR 0x0A)
      else if e = CHR ''r'' then Some (CHR 0x0D)
      else if e = CHR ''t'' then Some (CHR 0x09)
      else None)"

text \<open>
  \<open>unquote\<close> is the loop of \<open>unquoteBytes\<close> over the bytes between the quotes: escapes are
  replaced, a pair of surrogate escapes is one code point, a lone surrogate and every byte
  that is not well-formed UTF-8 become the replacement character. \<open>None\<close> is the source's
  \<open>ok = false\<close>; it does not arise on a token the scanner has accepted.
\<close>

function unquote :: "string \<Rightarrow> string option" where
  "unquote [] = Some []"
| "unquote (c # cs) =
     (if c = CHR 0x5C then
        (case cs of
           [] \<Rightarrow> None
         | e # r \<Rightarrow>
             if e = CHR ''u'' then
               (case getu4 (c # cs) of
                  None \<Rightarrow> None
                | Some rr \<Rightarrow>
                    if IsSurrogate rr
                         \<and> utf16_DecodeRune rr (getu4 (drop 4 r)) \<noteq> ReplacementChar
                    then map_option
                           ((@) (EncodeRune (utf16_DecodeRune rr (getu4 (drop 4 r)))))
                           (unquote (drop 10 r))
                    else map_option
                           ((@) (EncodeRune (if IsSurrogate rr then ReplacementChar else rr)))
                           (unquote (drop 4 r)))
             else
               (case escape_char e of
                  None \<Rightarrow> None
                | Some x \<Rightarrow> map_option ((#) x) (unquote r)))
      else if c = CHR 0x22 \<or> byte c < 32 then None
      else if byte c < 128 then map_option ((#) c) (unquote cs)
      else if utf8_sequence (c # cs) = 0 then
        map_option ((@) (EncodeRune ReplacementChar)) (unquote cs)
      else
        map_option ((@) (take (utf8_sequence (c # cs)) (c # cs)))
          (unquote (drop (utf8_sequence (c # cs)) (c # cs))))"
  by pat_completeness auto
termination
  by (relation "measure length") auto

definition unquoteBytes :: "string \<Rightarrow> string option" where
  "unquoteBytes s =
     (if length s < 2 \<or> hd s \<noteq> CHR 0x22 \<or> last s \<noteq> CHR 0x22 then None
      else unquote (butlast (tl s)))"

subsection \<open>The value a decoder reads\<close>

text \<open>
  The first JSON value of the body, as a tree. The decoder of the source stores into the
  target while it rescans the value; here the value is built while the scanner runs
  (\<open>build\<close>), and stored afterwards (\<open>unmarshal\<close>). A literal is the byte of its
  \<open>scanBeginLiteral\<close> followed by the bytes of the \<open>scanContinue\<close>s after it.
\<close>

datatype json =
    JNull
  | JBool bool
  | JNumber string
  | JString string
  | JArray "json list"
  | JObject "(string \<times> json) list"

datatype frame = ObjectFrame "(string \<times> json) list" "string option" | ArrayFrame "json list"

record builder =
  builder_frames :: "frame list"
  builder_literal :: "string option"
  builder_top :: "json option"

definition builder_reset :: builder where
  "builder_reset = \<lparr>builder_frames = [], builder_literal = None, builder_top = None\<rparr>"

definition literal_value :: "string \<Rightarrow> json" where
  "literal_value item =
     (case item of
        [] \<Rightarrow> JNull
      | c # _ \<Rightarrow>
          if c = CHR 0x22 then
            (case unquoteBytes item of Some s \<Rightarrow> JString s | None \<Rightarrow> JString [])
          else if c = CHR ''t'' then JBool True
          else if c = CHR ''f'' then JBool False
          else if c = CHR ''n'' then JNull
          else JNumber item)"

text \<open>
  A finished value goes to the innermost open container: an element of an array, the key
  of an object that waits for one, or the value of its pending key; with no container open
  it is the top-level value.
\<close>

definition reduce :: "json \<Rightarrow> builder \<Rightarrow> builder" where
  "reduce v b =
     (case builder_frames b of
        [] \<Rightarrow> b\<lparr>builder_top := Some v\<rparr>
      | ArrayFrame es # fs \<Rightarrow> b\<lparr>builder_frames := ArrayFrame (es @ [v]) # fs\<rparr>
      | ObjectFrame ms (Some k) # fs \<Rightarrow>
          b\<lparr>builder_frames := ObjectFrame (ms @ [(k, v)]) None # fs\<rparr>
      | ObjectFrame ms None # fs \<Rightarrow>
          (case v of
             JString k \<Rightarrow> b\<lparr>builder_frames := ObjectFrame ms (Some k) # fs\<rparr>
           | _ \<Rightarrow> b))"

definition flush :: "builder \<Rightarrow> builder" where
  "flush b =
     (case builder_literal b of
        None \<Rightarrow> b
      | Some item \<Rightarrow> reduce (literal_value item) (b\<lparr>builder_literal := None\<rparr>))"

definition build :: "opcode \<Rightarrow> char \<Rightarrow> builder \<Rightarrow> builder" where
  "build op c b =
     (case op of
        scanBeginLiteral \<Rightarrow> b\<lparr>builder_literal := Some [c]\<rparr>
      | scanContinue \<Rightarrow> b\<lparr>builder_literal := map_option (\<lambda>item. item @ [c]) (builder_literal b)\<rparr>
      | scanBeginObject \<Rightarrow> b\<lparr>builder_frames := ObjectFrame [] None # builder_frames b\<rparr>
      | scanBeginArray \<Rightarrow> b\<lparr>builder_frames := ArrayFrame [] # builder_frames b\<rparr>
      | scanEndObject \<Rightarrow>
          (let b' = flush b
           in case builder_frames b' of
                ObjectFrame ms _ # fs \<Rightarrow> reduce (JObject ms) (b'\<lparr>builder_frames := fs\<rparr>)
              | _ \<Rightarrow> b')
      | scanEndArray \<Rightarrow>
          (let b' = flush b
           in case builder_frames b' of
                ArrayFrame es # fs \<Rightarrow> reduce (JArray es) (b'\<lparr>builder_frames := fs\<rparr>)
              | _ \<Rightarrow> b')
      | scanError \<Rightarrow> b
      | _ \<Rightarrow> flush b)"

text \<open>
  \<open>readValue\<close> feeds the body to the scanner until the first value has ended: on
  \<open>scanEnd\<close> (the value ended before this byte), on the bracket that closes the top-level
  object or array, or at the end of the body when a space would end the value. What
  follows the value is never read. A scan error, or a body that ends too early, is an
  error, and nothing has been stored then.
\<close>

datatype read_error = SyntaxError | EndOfInput

fun readValue :: "scanner \<Rightarrow> builder \<Rightarrow> string \<Rightarrow> read_error + json" where
  "readValue s b [] =
     (if fst (scan_step s (CHR 0x20)) = scanEnd then
        (case builder_top (flush b) of Some v \<Rightarrow> Inr v | None \<Rightarrow> Inl EndOfInput)
      else Inl EndOfInput)"
| "readValue s b (c # cs) =
     (case scan_step s c of
        (op, s') \<Rightarrow>
          if op = scanEnd then
            (case builder_top (flush b) of Some v \<Rightarrow> Inr v | None \<Rightarrow> Inl SyntaxError)
          else if op = scanError then Inl SyntaxError
          else if (op = scanEndObject \<or> op = scanEndArray)
                    \<and> fst (stateEndValue s' (CHR 0x20)) = scanEnd then
            (case builder_top (build op c b) of Some v \<Rightarrow> Inr v | None \<Rightarrow> Inl SyntaxError)
          else readValue s' (build op c b) cs)"

subsection \<open>Storing the value\<close>

text \<open>
  Storing into a string takes a JSON string, leaves the zero value on \<open>null\<close>, and saves a
  type error on anything else. Storing into a map takes an object, member by member (a
  later member of the same key replaces the earlier one; a member whose value does not fit
  is stored with the zero value), leaves nil on \<open>null\<close> and saves a type error on anything
  else. The decoder goes on after a type error and returns the first one it saved.
\<close>

definition first_error :: "error option \<Rightarrow> error option \<Rightarrow> error option" where
  "first_error e1 e2 = (case e1 of Some e \<Rightarrow> Some e | None \<Rightarrow> e2)"

definition unmarshal_string :: "json \<Rightarrow> string \<times> error option" where
  "unmarshal_string v =
     (case v of
        JString s \<Rightarrow> (s, None)
      | JNull \<Rightarrow> ('''', None)
      | _ \<Rightarrow> ('''', Some (DecodeError ''json: cannot unmarshal into Go value of type string'')))"

fun unmarshal_members ::
  "(json \<Rightarrow> 'a \<times> error option) \<Rightarrow> (string \<times> json) list \<Rightarrow> (string \<Rightarrow> 'a option) \<times> error option
     \<Rightarrow> (string \<Rightarrow> 'a option) \<times> error option" where
  "unmarshal_members elem [] acc = acc"
| "unmarshal_members elem ((k, v) # ms) acc =
     unmarshal_members elem ms
       ((fst acc)(k \<mapsto> fst (elem v)), first_error (snd acc) (snd (elem v)))"

definition unmarshal_map ::
  "(json \<Rightarrow> 'a \<times> error option) \<Rightarrow> json \<Rightarrow> (string \<Rightarrow> 'a option) \<times> error option" where
  "unmarshal_map elem v =
     (case v of
        JObject ms \<Rightarrow> unmarshal_members elem ms (Map.empty, None)
      | JNull \<Rightarrow> (Map.empty, None)
      | _ \<Rightarrow> (Map.empty, Some (DecodeError ''json: cannot unmarshal into Go value of type map'')))"

definition unmarshal :: "json \<Rightarrow> token_map \<times> error option" where
  "unmarshal v = unmarshal_map (unmarshal_map (unmarshal_map unmarshal_string)) v"

text \<open>
  \<open>Decode\<close> on a fresh decoder and a nil map: the map as the decoder leaves it, and the
  error it returns. A body with no complete first value leaves the map nil; the error is
  then a syntax error, \<open>io.EOF\<close> for a body of white space only, or
  \<open>io.ErrUnexpectedEOF\<close>. Only the kind of an error is kept, not the text of its
  message.
\<close>

definition Decode :: "string \<Rightarrow> token_map \<times> error option" where
  "Decode body =
     (case readValue scanner_reset builder_reset body of
        Inr v \<Rightarrow> unmarshal v
      | Inl SyntaxError \<Rightarrow> (Map.empty, Some (DecodeError ''json: syntax error''))
      | Inl EndOfInput \<Rightarrow>
          (Map.empty,
           Some (DecodeError (if list_all isSpace body then ''EOF'' else ''unexpected EOF''))))"

section \<open>Observing a request\<close>

text \<open>
  The entries of the \<open>input\<close> object a call binds: those of the map bound to the variable
  \<open>input\<close> of the request it builds, and none when the call builds no request or binds
  no such map.
\<close>

definition input_of :: "Request outcome \<Rightarrow> string \<Rightarrow> gvalue option" where
  "input_of out =
     (case out of
        Returns r \<Rightarrow> (case req_vars r ''input'' of Some (VMap m) \<Rightarrow> m | _ \<Rightarrow> Map.empty)
      | _ \<Rightarrow> Map.empty)"

section \<open>Properties of the normalisation\<close>

lemma perl_space_blank [simp]: "perl_space (CHR 0x20)"
  by (simp add: perl_space_def)

lemma collapse_Cons:
  "compactPattern_ReplaceAllString (c # cs) '' '' =
     (if perl_space c then CHR 0x20 else c)
       # compactPattern_ReplaceAllString (if perl_space c then dropWhile perl_space cs else cs) '' ''"
  by simp

lemma collapse_single: "compactPattern_ReplaceAllString [c] '' '' = [if perl_space c then CHR 0x20 else c]"
  by simp

lemma collapse_step:
  "compactPattern_ReplaceAllString (c # d # cs) '' '' =
     (if perl_space c \<and> perl_space d then compactPattern_ReplaceAllString (d # cs) '' ''
      else (if perl_space c then CHR 0x20 else c) # compactPattern_ReplaceAllString (d # cs) '' '')"
  by simp

lemma collapse_idem: "compactPattern_ReplaceAllString (compactPattern_ReplaceAllString s '' '') '' '' = compactPattern_ReplaceAllString s '' ''"
proof (induction s rule: induct_list012)
  case 1
  show ?case by simp
next
  case (2 c)
  show ?case by simp
next
  case (3 c d cs)
  let ?f = "\<lambda>x. if perl_space x then CHR 0x20 else x"
  obtain Y where Y: "compactPattern_ReplaceAllString (d # cs) '' '' = ?f d # Y"
    using collapse_Cons by blast
  show ?case
  proof (cases "perl_space c \<and> perl_space d")
    case True
    then show ?thesis using "3.IH"(2) by (simp add: collapse_step del: compactPattern_ReplaceAllString.simps)
  next
    case False
    then have a: "compactPattern_ReplaceAllString (c # d # cs) '' '' = ?f c # compactPattern_ReplaceAllString (d # cs) '' ''"
      by (auto simp: collapse_step simp del: compactPattern_ReplaceAllString.simps)
    have b: "compactPattern_ReplaceAllString (?f c # ?f d # Y) '' '' = ?f c # compactPattern_ReplaceAllString (?f d # Y) '' ''"
      using False by (auto simp: collapse_step simp del: compactPattern_ReplaceAllString.simps)
    show ?thesis
      using "3.IH"(2) b unfolding a Y by simp
  qed
qed

lemma runs_Cons_nonempty: "runs p (x # xs) \<noteq> [] \<and> hd (runs p (x # xs)) \<noteq> [] \<and> hd (hd (runs p (x # xs))) = x"
  by (simp split: list.split)

lemma spec_collapse_step:
  "spec_collapse ws (c # d # cs) =
     (if ws c \<and> ws d then spec_collapse ws (d # cs)
      else (if ws c then CHR 0x20 else c) # spec_collapse ws (d # cs))"
proof -
  obtain r rs where r: "runs ws (d # cs) = r # rs" "r \<noteq> []" "hd r = d"
    using runs_Cons_nonempty [of ws d cs] by (cases "runs ws (d # cs)") auto
  then obtain r' where r': "r = d # r'" by (cases r) auto
  have "runs ws (c # d # cs) = (if ws c = ws d then (c # r) # rs else [c] # r # rs)"
    using r by (simp del: runs.simps(2) add: runs.simps(2) [of ws c])
  then show ?thesis
    using r r' by (auto simp: spec_collapse_def simp del: runs.simps)
qed

lemma collapse_refines_spec: "compactPattern_ReplaceAllString s '' '' = spec_collapse perl_space s"
proof (induction s rule: induct_list012)
  case 1
  show ?case by (simp add: spec_collapse_def)
next
  case (2 c)
  show ?case by (simp add: spec_collapse_def)
next
  case (3 c d cs)
  then show ?case
    by (simp add: collapse_step spec_collapse_step del: compactPattern_ReplaceAllString.simps)
qed

lemma runes_checked:
  "list_all (\<lambda>r. r \<noteq> [] \<and> (list_all (\<lambda>x. \<not> perl_space x) r \<or> (length r = 1 \<and> perl_space (hd r))))
     white_space_runes"
  by (simp add: white_space_runes_def perl_space_def)

lemma rune_shape:
  assumes "r \<in> set white_space_runes"
  shows "r \<noteq> [] \<and> ((\<forall>x\<in>set r. \<not> perl_space x) \<or> (\<exists>b. r = [b] \<and> perl_space b))"
proof -
  have "r \<noteq> [] \<and> (list_all (\<lambda>x. \<not> perl_space x) r \<or> (length r = 1 \<and> perl_space (hd r)))"
    using runes_checked assms by (simp add: list_all_iff)
  moreover have "length r = 1 \<and> perl_space (hd r) \<Longrightarrow> \<exists>b. r = [b] \<and> perl_space b"
    by (cases r) auto
  ultimately show ?thesis by (auto simp: list_all_iff)
qed

lemma perl_space_rune: "perl_space c \<Longrightarrow> [c] \<in> set white_space_runes"
  by (simp add: white_space_runes_def perl_space_def) blast

lemma collapse_length: "length (compactPattern_ReplaceAllString s '' '') \<le> length s"
proof (induction s rule: induct_list012)
  case (3 c d cs)
  then show ?case by (auto simp: collapse_step simp del: compactPattern_ReplaceAllString.simps)
qed simp_all

lemma collapse_take:
  "\<forall>x\<in>set (take n (compactPattern_ReplaceAllString t '' '')). \<not> perl_space x
     \<Longrightarrow> take n (compactPattern_ReplaceAllString t '' '') = take n t"
proof (induction t arbitrary: n)
  case Nil
  show ?case by simp
next
  case (Cons c cs)
  show ?case
  proof (cases n)
    case 0
    then show ?thesis by simp
  next
    case (Suc m)
    have nc: "\<not> perl_space c"
    proof
      assume "perl_space c"
      then have "CHR 0x20 \<in> set (take n (compactPattern_ReplaceAllString (c # cs) '' ''))"
        unfolding Suc by simp
      then have "\<not> perl_space (CHR 0x20)"
        using Cons.prems by blast
      then show False by simp
    qed
    then have eq: "compactPattern_ReplaceAllString (c # cs) '' '' = c # compactPattern_ReplaceAllString cs '' ''"
      by simp
    have "\<forall>x\<in>set (take m (compactPattern_ReplaceAllString cs '' '')). \<not> perl_space x"
      using Cons.prems unfolding eq Suc by simp
    then have "take m (compactPattern_ReplaceAllString cs '' '') = take m cs"
      by (rule Cons.IH)
    then show ?thesis unfolding eq Suc by simp
  qed
qed

lemma collapse_snoc_step:
  "compactPattern_ReplaceAllString (xs @ [d, c]) '' '' =
     (if perl_space d \<and> perl_space c then compactPattern_ReplaceAllString (xs @ [d]) '' ''
      else compactPattern_ReplaceAllString (xs @ [d]) '' '' @ [if perl_space c then CHR 0x20 else c])"
proof (induction xs)
  case Nil
  show ?case by simp
next
  case (Cons a xs)
  obtain b rest where b: "xs @ [d, c] = b # rest @ [c]" "xs @ [d] = b # rest"
    by (cases xs) auto
  have "compactPattern_ReplaceAllString (a # b # rest @ [c]) '' '' =
      (if perl_space a \<and> perl_space b then compactPattern_ReplaceAllString (b # rest @ [c]) '' ''
       else (if perl_space a then CHR 0x20 else a) # compactPattern_ReplaceAllString (b # rest @ [c]) '' '')"
    by (rule collapse_step)
  moreover have "compactPattern_ReplaceAllString (a # b # rest) '' '' =
      (if perl_space a \<and> perl_space b then compactPattern_ReplaceAllString (b # rest) '' ''
       else (if perl_space a then CHR 0x20 else a) # compactPattern_ReplaceAllString (b # rest) '' '')"
    by (rule collapse_step)
  ultimately show ?case
    using Cons.IH unfolding append_Cons b by auto
qed

lemma collapse_rev: "rev (compactPattern_ReplaceAllString t '' '') = compactPattern_ReplaceAllString (rev t) '' ''"
proof (induction t rule: induct_list012)
  case 1
  show ?case by simp
next
  case (2 c)
  show ?case by simp
next
  case (3 c d cs)
  have "compactPattern_ReplaceAllString (rev (c # d # cs)) '' '' = compactPattern_ReplaceAllString (rev cs @ [d, c]) '' ''"
    by simp
  also have "\<dots> = (if perl_space d \<and> perl_space c then compactPattern_ReplaceAllString (rev cs @ [d]) '' ''
      else compactPattern_ReplaceAllString (rev cs @ [d]) '' '' @ [if perl_space c then CHR 0x20 else c])"
    by (rule collapse_snoc_step)
  also have "compactPattern_ReplaceAllString (rev cs @ [d]) '' '' = rev (compactPattern_ReplaceAllString (d # cs) '' '')"
    using "3.IH"(2) by simp
  finally show ?case
    by (auto simp: collapse_step simp del: compactPattern_ReplaceAllString.simps)
qed

lemma collapse_drop:
  assumes "\<forall>x\<in>set (drop (length (compactPattern_ReplaceAllString t '' '') - n) (compactPattern_ReplaceAllString t '' '')). \<not> perl_space x"
  shows "drop (length (compactPattern_ReplaceAllString t '' '') - n) (compactPattern_ReplaceAllString t '' '') = drop (length t - n) t"
proof -
  have "\<forall>x\<in>set (take n (compactPattern_ReplaceAllString (rev t) '' '')). \<not> perl_space x"
    using assms by (simp add: collapse_rev [symmetric] take_rev)
  then have "take n (compactPattern_ReplaceAllString (rev t) '' '') = take n (rev t)"
    by (rule collapse_take)
  then have "rev (drop (length (compactPattern_ReplaceAllString t '' '') - n) (compactPattern_ReplaceAllString t '' ''))
      = rev (drop (length t - n) t)"
    by (simp add: collapse_rev [symmetric] take_rev)
  then show ?thesis by simp
qed

lemma leading_space_collapse:
  assumes "leading_space t = None"
  shows "leading_space (compactPattern_ReplaceAllString t '' '') = None"
proof (rule ccontr)
  assume "leading_space (compactPattern_ReplaceAllString t '' '') \<noteq> None"
  then obtain r where r: "r \<in> set white_space_runes"
      "take (length r) (compactPattern_ReplaceAllString t '' '') = r"
    by (auto simp: leading_space_def find_None_iff)
  have none: "\<And>r. r \<in> set white_space_runes \<Longrightarrow> take (length r) t \<noteq> r"
    using assms by (auto simp: leading_space_def find_None_iff)
  from rune_shape [OF r(1)] have "r \<noteq> []" and
    sh: "(\<forall>x\<in>set r. \<not> perl_space x) \<or> (\<exists>b. r = [b] \<and> perl_space b)" by auto
  from sh show False
  proof
    assume "\<forall>x\<in>set r. \<not> perl_space x"
    then have "take (length r) (compactPattern_ReplaceAllString t '' '') = take (length r) t"
      using r(2) collapse_take [of "length r" t] by simp
    with r(2) have "take (length r) t = r" by simp
    then show False using none [OF r(1)] by blast
  next
    assume "\<exists>b. r = [b] \<and> perl_space b"
    then obtain b where b: "r = [b]" "perl_space b" by auto
    then obtain c cs where t: "t = c # cs"
      using r(2) by (cases t) auto
    show False
    proof (cases "perl_space c")
      case True
      then show ?thesis using none [OF perl_space_rune [of c]] t by simp
    next
      case False
      then have "b = c" using r(2) b t by simp
      then show ?thesis using b False by simp
    qed
  qed
qed

lemma trailing_space_collapse:
  assumes "trailing_space t = None"
  shows "trailing_space (compactPattern_ReplaceAllString t '' '') = None"
proof (rule ccontr)
  let ?u = "compactPattern_ReplaceAllString t '' ''"
  assume "trailing_space ?u \<noteq> None"
  then obtain r where r: "r \<in> set white_space_runes" "length r \<le> length ?u"
      "drop (length ?u - length r) ?u = r"
    by (auto simp: trailing_space_def find_None_iff)
  have none: "\<And>r. r \<in> set white_space_runes \<Longrightarrow> length r \<le> length t
      \<Longrightarrow> drop (length t - length r) t \<noteq> r"
    using assms by (auto simp: trailing_space_def find_None_iff)
  have len: "length r \<le> length t"
    using r(2) collapse_length [of t] by simp
  from rune_shape [OF r(1)] have "r \<noteq> []" and
    sh: "(\<forall>x\<in>set r. \<not> perl_space x) \<or> (\<exists>b. r = [b] \<and> perl_space b)" by auto
  from sh show False
  proof
    assume "\<forall>x\<in>set r. \<not> perl_space x"
    then have "drop (length ?u - length r) ?u = drop (length t - length r) t"
      using r(3) collapse_drop [of t "length r"] by simp
    with r(3) have "drop (length t - length r) t = r" by simp
    then show False using none [OF r(1) len] by blast
  next
    assume "\<exists>b. r = [b] \<and> perl_space b"
    then obtain b where b: "r = [b]" "perl_space b" by auto
    have "t \<noteq> []" using len b by auto
    then obtain xs z where t: "t = xs @ [z]"
      by (cases t rule: rev_cases) auto
    show False
    proof (cases "perl_space z")
      case True
      then show ?thesis using none [OF perl_space_rune [of z]] t by simp
    next
      case False
      have "rev ?u = compactPattern_ReplaceAllString (z # rev xs) '' ''"
        using t by (simp add: collapse_rev)
      then have "rev ?u = z # compactPattern_ReplaceAllString (rev xs) '' ''"
        using False by simp
      then have u: "?u = rev (compactPattern_ReplaceAllString (rev xs) '' '') @ [z]"
        by (metis rev_rev_ident rev.simps(2))
      have "b = z" using r(3) b unfolding u by simp
      then show ?thesis using b False by simp
    qed
  qed
qed

lemma TrimLeft_leading: "leading_space (TrimLeft s) = None"
proof (induction s rule: TrimLeft.induct)
  case (1 s)
  show ?case
  proof (cases "leading_space s")
    case None
    then show ?thesis by (subst TrimLeft.simps) simp
  next
    case (Some r)
    then show ?thesis using "1.IH" by (subst TrimLeft.simps) simp
  qed
qed

lemma TrimRight_trailing: "trailing_space (TrimRight s) = None"
proof (induction s rule: TrimRight.induct)
  case (1 s)
  show ?case
  proof (cases "trailing_space s")
    case None
    then show ?thesis by (subst TrimRight.simps) simp
  next
    case (Some r)
    then show ?thesis using "1.IH" by (subst TrimRight.simps) simp
  qed
qed

lemma TrimRight_take: "\<exists>k. TrimRight s = take k s"
proof (induction s rule: TrimRight.induct)
  case (1 s)
  show ?case
  proof (cases "trailing_space s")
    case None
    then have "TrimRight s = take (length s) s" by (subst TrimRight.simps) simp
    then show ?thesis by blast
  next
    case (Some r)
    then obtain k where "TrimRight (take (length s - length r) s) = take k (take (length s - length r) s)"
      using "1.IH" by blast
    then have "TrimRight s = take (min k (length s - length r)) s"
      using Some by (subst TrimRight.simps) (simp add: take_take)
    then show ?thesis by blast
  qed
qed

lemma leading_space_take:
  assumes "leading_space t = None"
  shows "leading_space (take k t) = None"
proof (rule ccontr)
  assume "leading_space (take k t) \<noteq> None"
  then obtain r where r: "r \<in> set white_space_runes" "take (length r) (take k t) = r"
    by (auto simp: leading_space_def find_None_iff)
  have "length r \<le> k"
    using r(2) by (metis length_take min.cobounded2 min.coboundedI1 take_take min.commute)
  then have "take (length r) t = r"
    using r(2) by (simp add: take_take min_def)
  then show False
    using assms r(1) by (auto simp: leading_space_def find_None_iff)
qed

lemma TrimSpace_bare:
  "leading_space (TrimSpace s) = None" "trailing_space (TrimSpace s) = None"
proof -
  obtain k where "TrimRight (TrimLeft s) = take k (TrimLeft s)"
    using TrimRight_take by blast
  then show "leading_space (TrimSpace s) = None"
    using leading_space_take [OF TrimLeft_leading] by (simp add: TrimSpace_def)
  show "trailing_space (TrimSpace s) = None"
    by (simp add: TrimSpace_def TrimRight_trailing)
qed

lemma TrimSpace_fix:
  assumes "leading_space s = None" "trailing_space s = None"
  shows "TrimSpace s = s"
proof -
  have "TrimLeft s = s" using assms(1) by (subst TrimLeft.simps) simp
  moreover have "TrimRight s = s" using assms(2) by (subst TrimRight.simps) simp
  ultimately show ?thesis by (simp add: TrimSpace_def)
qed

lemma compact_trimmed: "TrimSpace (compactQueryString q) = compactQueryString q"
  unfolding compactQueryString_def
  by (intro TrimSpace_fix leading_space_collapse trailing_space_collapse TrimSpace_bare)

lemma compact_idem: "compactQueryString (compactQueryString q) = compactQueryString q"
proof -
  have "compactQueryString (compactQueryString q)
      = compactPattern_ReplaceAllString (TrimSpace (compactQueryString q)) '' ''"
    by (simp add: compactQueryString_def)
  also have "\<dots> = compactPattern_ReplaceAllString (compactQueryString q) '' ''"
    by (simp only: compact_trimmed)
  also have "\<dots> = compactQueryString q"
    by (simp add: compactQueryString_def collapse_idem)
  finally show ?thesis .
qed

lemma TrimLeft_decompose:
  "\<exists>ls. set ls \<subseteq> set white_space_runes \<and> s = concat ls @ TrimLeft s"
proof (induction s rule: TrimLeft.induct)
  case (1 s)
  show ?case
  proof (cases "leading_space s")
    case None
    then have "TrimLeft s = s" by (subst TrimLeft.simps) simp
    then have "set [] \<subseteq> set white_space_runes \<and> s = concat [] @ TrimLeft s" by simp
    then show ?thesis by blast
  next
    case (Some r)
    then have r: "r \<in> set white_space_runes" "take (length r) s = r"
      by (auto simp: leading_space_def find_Some_iff)
    obtain ls where ls: "set ls \<subseteq> set white_space_runes"
        "drop (length r) s = concat ls @ TrimLeft (drop (length r) s)"
      using "1.IH" [OF Some] by blast
    have t: "TrimLeft s = TrimLeft (drop (length r) s)"
      using Some by (subst TrimLeft.simps) simp
    have "s = r @ drop (length r) s"
      using r(2) by (metis append_take_drop_id)
    then have "s = r @ (concat ls @ TrimLeft (drop (length r) s))"
      using ls(2) by metis
    then have "s = concat (r # ls) @ TrimLeft s"
      unfolding t by simp
    moreover have "set (r # ls) \<subseteq> set white_space_runes"
      using r(1) ls(1) by simp
    ultimately show ?thesis by blast
  qed
qed

lemma TrimRight_decompose:
  "\<exists>rs. set rs \<subseteq> set white_space_runes \<and> s = TrimRight s @ concat rs"
proof (induction s rule: TrimRight.induct)
  case (1 s)
  show ?case
  proof (cases "trailing_space s")
    case None
    then have "TrimRight s = s" by (subst TrimRight.simps) simp
    then have "set [] \<subseteq> set white_space_runes \<and> s = TrimRight s @ concat []" by simp
    then show ?thesis by blast
  next
    case (Some r)
    then have r: "r \<in> set white_space_runes" "drop (length s - length r) s = r"
      by (auto simp: trailing_space_def find_Some_iff)
    obtain rs where rs: "set rs \<subseteq> set white_space_runes"
        "take (length s - length r) s = TrimRight (take (length s - length r) s) @ concat rs"
      using "1.IH" [OF Some] by blast
    have t: "TrimRight s = TrimRight (take (length s - length r) s)"
      using Some by (subst TrimRight.simps) simp
    have "s = take (length s - length r) s @ r"
      using r(2) by (metis append_take_drop_id)
    then have "s = (TrimRight (take (length s - length r) s) @ concat rs) @ r"
      using rs(2) by metis
    then have "s = TrimRight s @ concat (rs @ [r])"
      unfolding t by simp
    moreover have "set (rs @ [r]) \<subseteq> set white_space_runes"
      using r(1) rs(1) by simp
    ultimately show ?thesis by blast
  qed
qed

lemma TrimSpace_decompose:
  "\<exists>ls rs. set ls \<subseteq> set white_space_runes \<and> set rs \<subseteq> set white_space_runes
     \<and> s = concat ls @ TrimSpace s @ concat rs"
proof -
  obtain ls where ls: "set ls \<subseteq> set white_space_runes" "s = concat ls @ TrimLeft s"
    using TrimLeft_decompose by blast
  obtain rs where rs: "set rs \<subseteq> set white_space_runes"
      "TrimLeft s = TrimRight (TrimLeft s) @ concat rs"
    using TrimRight_decompose by blast
  have "s = concat ls @ TrimSpace s @ concat rs"
    using ls(2) rs(2) by (simp add: TrimSpace_def)
  then show ?thesis using ls(1) rs(1) by blast
qed

section \<open>Requests\<close>

lemma req_q_Var: "req_q (Var k v r) = req_q r"
  by (simp add: Var_def)

lemma req_q_NewRequest: "req_q (NewRequest q) = compactQueryString q"
  by (simp add: NewRequest_def graphql_NewRequest_def)

lemma req_vars_Var: "req_vars (Var k v r) = (req_vars r)(k \<mapsto> v)"
  by (simp add: Var_def)

lemma req_vars_NewRequest: "req_vars (NewRequest q) = Map.empty"
  by (simp add: NewRequest_def graphql_NewRequest_def)

lemmas request_defs =
  GetCurrentUser_request_def GetOrganizations_request_def DeployImage_request_def
  GetApps_request_def GetApp_request_def GetAppReleases_request_def SetSecrets_request_def
  UnsetSecrets_request_def GetAppSecrets_request_def CreateApp_request_def
  GetAppWithTasks_request_def CreateSignedUrls_request_def CreateBuild_request_def
  ListBuilds_request_def GetBuild_request_def GetDNSZones_request_def
  FindDNSZone_request_def CreateDNSZone_request_def DeleteDNSZone_request_def
  GetDNSRecords_request_def ExportDNSRecords_request_def ImportDNSRecords_request_def
  GetWireGuardPeerStatus_request_def GetWireGuardPeer_request_def
  GetWireGuardPeers_request_def CreateWireGuardPeer_request_def
  RemoveWireGuardPeer_request_def CreateDelegatedWireGuardToken_request_def
  DeleteDelegatedWireGuardToken_request_def GetDelegatedWireGuardTokens_request_def
  ClosestWireguardGatewayRegion_request_def ValidateWireGuardPeers_request_def
  GetLoggedCertificates_request_def EstablishSSHKey_request_def
  IssueSSHCertificate_request_def PlatformRegions_request_def
  PlatformRegionsAll_request_def PlatformVMSizes_request_def DeployImage_v2_request_def
  GetDeploymentStatus_request_def GetConfig_request_def ParseConfig_request_def
  ValidateConfig_request_def

text \<open>
  The compacted document of \<open>GetCurrentUser\<close>, computed from its literal.
\<close>

lemma GetCurrentUser_document:
  "req_q GetCurrentUser_request = ''query { currentUser { email } }''"
  by (simp add: GetCurrentUser_request_def req_q_NewRequest GetCurrentUser_query_def line_def
        compactQueryString_def TrimSpace_def TrimLeft.simps TrimRight.simps
        leading_space_def trailing_space_def white_space_runes_def perl_space_def
        eval_nat_numeral)

text \<open>
  The document and the variable names of a built request are functions of the operation
  alone.
\<close>

lemma request_document:
  "\<exists>doc. \<forall>getenv c r. request_of getenv c = Returns r \<longrightarrow> req_q r = doc (operation_of c)"
proof -
  define doc where "doc = (\<lambda>op. case op of
      Op_GetCurrentUser \<Rightarrow> compactQueryString GetCurrentUser_query
    | Op_GetOrganizations \<Rightarrow> compactQueryString GetOrganizations_query
    | Op_DeployImage \<Rightarrow> compactQueryString DeployImage_query
    | Op_GetApps \<Rightarrow> compactQueryString GetApps_query
    | Op_GetApp \<Rightarrow> compactQueryString GetApp_query
    | Op_GetAppReleases \<Rightarrow> compactQueryString GetAppReleases_query
    | Op_SetSecrets \<Rightarrow> compactQueryString SetSecrets_query
    | Op_UnsetSecrets \<Rightarrow> compactQueryString UnsetSecrets_query
    | Op_GetAppSecrets \<Rightarrow> compactQueryString GetAppSecrets_query
    | Op_CreateApp \<Rightarrow> compactQueryString CreateApp_query
    | Op_GetAppWithTasks \<Rightarrow> compactQueryString GetAppWithTasks_query
    | Op_CreateSignedUrls \<Rightarrow> compactQueryString CreateSignedUrls_query
    | Op_CreateBuild \<Rightarrow> compactQueryString CreateBuild_query
    | Op_ListBuilds \<Rightarrow> compactQueryString ListBuilds_query
    | Op_GetBuild \<Rightarrow> compactQueryString GetBuild_query
    | Op_GetDNSZones \<Rightarrow> compactQueryString GetDNSZones_query
    | Op_FindDNSZone \<Rightarrow> compactQueryString FindDNSZone_query
    | Op_CreateDNSZone \<Rightarrow> compactQueryString CreateDNSZone_query
    | Op_DeleteDNSZone \<Rightarrow> compactQueryString DeleteDNSZone_query
    | Op_GetDNSRecords \<Rightarrow> compactQueryString GetDNSRecords_query
    | Op_ExportDNSRecords \<Rightarrow> compactQueryString ExportDNSRecords_query
    | Op_ImportDNSRecords \<Rightarrow> compactQueryString ImportDNSRecords_query
    | Op_GetWireGuardPeerStatus \<Rightarrow> compactQueryString GetWireGuardPeerStatus_query
    | Op_GetWireGuardPeer \<Rightarrow> compactQueryString GetWireGuardPeer_query
    | Op_GetWireGuardPeers \<Rightarrow> compactQueryString GetWireGuardPeers_query
    | Op_CreateWireGuardPeer \<Rightarrow> compactQueryString CreateWireGuardPeer_query
    | Op_RemoveWireGuardPeer \<Rightarrow> compactQueryString RemoveWireGuardPeer_query
    | Op_CreateDelegatedWireGuardToken \<Rightarrow>
        compactQueryString CreateDelegatedWireGuardToken_query
    | Op_DeleteDelegatedWireGuardToken \<Rightarrow>
        compactQueryString DeleteDelegatedWireGuardToken_query
    | Op_GetDelegatedWireGuardTokens \<Rightarrow> compactQueryString GetDelegatedWireGuardTokens_query
    | Op_ClosestWireguardGatewayRegion \<Rightarrow>
        compactQueryString ClosestWireguardGatewayRegion_query
    | Op_ValidateWireGuardPeers \<Rightarrow> compactQueryString ValidateWireGuardPeers_query
    | Op_GetLoggedCertificates \<Rightarrow> compactQueryString GetLoggedCertificates_query
    | Op_EstablishSSHKey \<Rightarrow> compactQueryString EstablishSSHKey_query
    | Op_IssueSSHCertificate \<Rightarrow> compactQueryString IssueSSHCertificate_query
    | Op_PlatformRegions \<Rightarrow> compactQueryString PlatformRegions_query
    | Op_PlatformRegionsAll \<Rightarrow> compactQueryString PlatformRegionsAll_query
    | Op_PlatformVMSizes \<Rightarrow> compactQueryString PlatformVMSizes_query
    | Op_DeployImage_v2 \<Rightarrow> compactQueryString DeployImage_v2_query
    | Op_GetDeploymentStatus \<Rightarrow> compactQueryString GetDeploymentStatus_query
    | Op_GetConfig \<Rightarrow> compactQueryString GetConfig_query
    | Op_ParseConfig \<Rightarrow> compactQueryString ParseConfig_query
    | Op_ValidateConfig \<Rightarrow> compactQueryString ValidateConfig_query)"
  have "req_q r = doc (operation_of c)" if "request_of getenv c = Returns r" for getenv c r
    using that
    by (cases c)
       (auto simp: doc_def request_defs req_q_Var req_q_NewRequest Let_def
             split: option.splits if_splits)
  then show ?thesis by blast
qed

lemma request_variable_names:
  "\<exists>names. \<forall>getenv c r. request_of getenv c = Returns r
     \<longrightarrow> dom (req_vars r) = names (operation_of c)"
proof -
  define names :: "operation \<Rightarrow> string set" where "names = (\<lambda>op. case op of
      Op_GetCurrentUser \<Rightarrow> {}
    | Op_GetOrganizations \<Rightarrow> {}
    | Op_DeployImage \<Rightarrow> {''input''}
    | Op_GetApps \<Rightarrow> {}
    | Op_GetApp \<Rightarrow> {''appName''}
    | Op_GetAppReleases \<Rightarrow> {''appName'', ''limit''}
    | Op_SetSecrets \<Rightarrow> {''input''}
    | Op_UnsetSecrets \<Rightarrow> {''input''}
    | Op_GetAppSecrets \<Rightarrow> {''appName''}
    | Op_CreateApp \<Rightarrow> {''input''}
    | Op_GetAppWithTasks \<Rightarrow> {''appName''}
    | Op_CreateSignedUrls \<Rightarrow> {''appId'', ''filename''}
    | Op_CreateBuild \<Rightarrow> {''appId'', ''sourceUrl'', ''sourceType''}
    | Op_ListBuilds \<Rightarrow> {''appName''}
    | Op_GetBuild \<Rightarrow> {''id''}
    | Op_GetDNSZones \<Rightarrow> {''slug''}
    | Op_FindDNSZone \<Rightarrow> {''slug'', ''domain''}
    | Op_CreateDNSZone \<Rightarrow> {''input''}
    | Op_DeleteDNSZone \<Rightarrow> {''input''}
    | Op_GetDNSRecords \<Rightarrow> {''zoneId''}
    | Op_ExportDNSRecords \<Rightarrow> {''input''}
    | Op_ImportDNSRecords \<Rightarrow> {''input''}
    | Op_GetWireGuardPeerStatus \<Rightarrow> {''slug'', ''name''}
    | Op_GetWireGuardPeer \<Rightarrow> {''slug'', ''name''}
    | Op_GetWireGuardPeers \<Rightarrow> {''slug''}
    | Op_CreateWireGuardPeer \<Rightarrow> {''input''}
    | Op_RemoveWireGuardPeer \<Rightarrow> {''input''}
    | Op_CreateDelegatedWireGuardToken \<Rightarrow> {''input''}
    | Op_DeleteDelegatedWireGuardToken \<Rightarrow> {''input''}
    | Op_GetDelegatedWireGuardTokens \<Rightarrow> {''slug''}
    | Op_ClosestWireguardGatewayRegion \<Rightarrow> {}
    | Op_ValidateWireGuardPeers \<Rightarrow> {''input''}
    | Op_GetLoggedCertificates \<Rightarrow> {''slug''}
    | Op_EstablishSSHKey \<Rightarrow> {''input''}
    | Op_IssueSSHCertificate \<Rightarrow> {''input''}
    | Op_PlatformRegions \<Rightarrow> {}
    | Op_PlatformRegionsAll \<Rightarrow> {}
    | Op_PlatformVMSizes \<Rightarrow> {}
    | Op_DeployImage_v2 \<Rightarrow> {''input''}
    | Op_GetDeploymentStatus \<Rightarrow> {''appName'', ''deploymentId''}
    | Op_GetConfig \<Rightarrow> {''appName''}
    | Op_ParseConfig \<Rightarrow> {''appName'', ''definition''}
    | Op_ValidateConfig \<Rightarrow> {''definition''})"
  have "dom (req_vars r) = names (operation_of c)"
    if "request_of getenv c = Returns r" for getenv c r
    using that
    by (cases c)
       (auto simp: names_def request_defs req_vars_Var req_vars_NewRequest Let_def
             split: option.splits if_splits)
  then show ?thesis by blast
qed

lemma request_environment:
  "operation_of c \<noteq> Op_CreateWireGuardPeer \<Longrightarrow> request_of env1 c = request_of env2 c"
  by (cases c) simp_all

section \<open>The claims\<close>

text \<open>
  C1. When the transport call succeeds and the envelope sub-field is nil (the organization
  or its zone for \<open>FindDNSZone\<close>, the zone node for \<open>GetDNSRecords\<close>), the operation
  returns the not-found error, not a value.
\<close>

theorem zone_lookup_not_found:
  "(Run c (FindDNSZone_request organizationSlug domain) = (data, None)
      \<longrightarrow> (Query_Organization data = None
           \<or> (\<exists>org. Query_Organization data = Some org \<and> OrganizationDetails_DNSZone org = None))
      \<longrightarrow> FindDNSZone c organizationSlug domain = Fails ErrNotFound)
   \<and> (Run c (GetDNSRecords_request zoneID) = (data', None)
      \<longrightarrow> Query_DNSZone data' = None
      \<longrightarrow> GetDNSRecords c zoneID = Fails ErrNotFound)"
  by (auto simp: FindDNSZone_def GetDNSRecords_def)

theorem zone_lookup_not_found_witness:
  "FindDNSZone
     \<lparr>Client_accessToken = ''token'',
      Client_Run = (\<lambda>ctx req.
        ((zero_Query :: (unit, unit) Query)
           \<lparr>Query_Organization :=
              Some \<lparr>OrganizationDetails_DNSZone = None,
                    OrganizationDetails_DNSZones_Nodes = None,
                    OrganizationDetails_WireGuardPeers_Nodes = None\<rparr>\<rparr>, None))\<rparr>
     ''acme'' ''example.com'' = Fails ErrNotFound
   \<and> GetDNSRecords
     \<lparr>Client_accessToken = ''token'',
      Client_Run = (\<lambda>ctx req. ((zero_Query :: (unit, unit) Query), None))\<rparr>
     ''zone-1'' = Fails ErrNotFound"
proof -
  let ?org = "\<lparr>OrganizationDetails_DNSZone = (None :: unit DNSZone option),
                OrganizationDetails_DNSZones_Nodes = None,
                OrganizationDetails_WireGuardPeers_Nodes = (None :: unit option list option)\<rparr>"
  let ?data = "(zero_Query :: (unit, unit) Query)\<lparr>Query_Organization := Some ?org\<rparr>"
  let ?c = "\<lparr>Client_accessToken = ''token'', Client_Run = (\<lambda>ctx req. (?data, None))\<rparr>"
  let ?c' = "\<lparr>Client_accessToken = ''token'',
              Client_Run = (\<lambda>ctx req. ((zero_Query :: (unit, unit) Query), None))\<rparr>"
  have "Run ?c (FindDNSZone_request ''acme'' ''example.com'') = (?data, None)"
    by (simp add: Run_def RunWithContext_def)
  moreover have "Query_Organization ?data = Some ?org \<and> OrganizationDetails_DNSZone ?org = None"
    by simp
  ultimately have a: "FindDNSZone ?c ''acme'' ''example.com'' = Fails ErrNotFound"
    using zone_lookup_not_found
            [where c = ?c and organizationSlug = "''acme''" and domain = "''example.com''"
               and data = ?data] by blast
  have "Run ?c' (GetDNSRecords_request ''zone-1'') = (zero_Query, None)"
    by (simp add: Run_def RunWithContext_def)
  moreover have "Query_DNSZone (zero_Query :: (unit, unit) Query) = None"
    by (simp add: zero_Query_def)
  ultimately have b: "GetDNSRecords ?c' ''zone-1'' = Fails ErrNotFound"
    using zone_lookup_not_found [where c = ?c' and zoneID = "''zone-1''" and data' = zero_Query] by blast
  from a b show ?thesis by simp
qed

text \<open>
  C2. When the transport call succeeds and the \<open>Nodes\<close> pointer of the list sub-field is
  nil, \<open>GetWireGuardPeers\<close> and \<open>GetDNSZones\<close> panic on the dereference: they return
  neither an error nor an empty list.
\<close>

theorem list_accessors_panic_on_nil_nodes:
  "(RunWithContext c ctx (GetWireGuardPeers_request slug) = (data, None)
      \<longrightarrow> Query_Organization data = Some org
      \<longrightarrow> OrganizationDetails_WireGuardPeers_Nodes org = None
      \<longrightarrow> GetWireGuardPeers c ctx slug = Panics)
   \<and> (Run c (GetDNSZones_request slug') = (data', None)
      \<longrightarrow> Query_Organization data' = Some org'
      \<longrightarrow> OrganizationDetails_DNSZones_Nodes org' = None
      \<longrightarrow> GetDNSZones c slug' = Panics)"
  by (auto simp: GetWireGuardPeers_def GetDNSZones_def)

theorem list_accessors_panic_on_nil_nodes_witness:
  "GetWireGuardPeers
     \<lparr>Client_accessToken = ''token'',
      Client_Run = (\<lambda>ctx req.
        ((zero_Query :: (unit, unit) Query)
           \<lparr>Query_Organization :=
              Some \<lparr>OrganizationDetails_DNSZone = None,
                    OrganizationDetails_DNSZones_Nodes = None,
                    OrganizationDetails_WireGuardPeers_Nodes = None\<rparr>\<rparr>, None))\<rparr>
     Background ''acme'' = Panics
   \<and> GetDNSZones
     \<lparr>Client_accessToken = ''token'',
      Client_Run = (\<lambda>ctx req.
        ((zero_Query :: (unit, unit) Query)
           \<lparr>Query_Organization :=
              Some \<lparr>OrganizationDetails_DNSZone = None,
                    OrganizationDetails_DNSZones_Nodes = None,
                    OrganizationDetails_WireGuardPeers_Nodes = None\<rparr>\<rparr>, None))\<rparr>
     ''acme'' = Panics"
proof -
  let ?org = "\<lparr>OrganizationDetails_DNSZone = (None :: unit DNSZone option),
                OrganizationDetails_DNSZones_Nodes = None,
                OrganizationDetails_WireGuardPeers_Nodes = (None :: unit option list option)\<rparr>"
  let ?data = "(zero_Query :: (unit, unit) Query)\<lparr>Query_Organization := Some ?org\<rparr>"
  let ?c = "\<lparr>Client_accessToken = ''token'', Client_Run = (\<lambda>ctx req. (?data, None))\<rparr>"
  have r1: "RunWithContext ?c Background (GetWireGuardPeers_request ''acme'') = (?data, None)"
    by (simp add: RunWithContext_def)
  have r2: "Run ?c (GetDNSZones_request ''acme'') = (?data, None)"
    by (simp add: Run_def RunWithContext_def)
  have o: "Query_Organization ?data = Some ?org" by simp
  have n1: "OrganizationDetails_WireGuardPeers_Nodes ?org = None" by simp
  have n2: "OrganizationDetails_DNSZones_Nodes ?org = None" by simp
  show ?thesis
    using list_accessors_panic_on_nil_nodes
            [where c = ?c and ctx = Background and slug = "''acme''" and data = ?data
               and org = ?org and slug' = "''acme''" and data' = ?data and org' = ?org] r1 r2 o n1 n2
    by blast
qed

text \<open>
  C3. Whatever \<open>name\<close> and \<open>orgId\<close> are, the variables \<open>CreateApp\<close> binds hold, under
  \<open>input\<close>, a \<open>CreateAppInput\<close> whose \<open>runtime\<close> is \<open>FIRECRACKER\<close>.
\<close>

theorem CreateApp_runtime_FIRECRACKER:
  "\<exists>i. request_of getenv (Call_CreateApp name orgId) = Returns (CreateApp_request name orgId)
     \<and> req_vars (CreateApp_request name orgId) ''input'' = Some (VCreateAppInput i)
     \<and> CreateAppInput_Runtime i = ''FIRECRACKER''
     \<and> map_of (CreateAppInput_json i) ''runtime'' = Some (VString ''FIRECRACKER'')"
  by (simp add: CreateApp_request_def req_vars_Var CreateAppInput_json_def)

text \<open>
  C4. For a response of \<open>GetAccessToken\<close>: a status of 500 or more gives the generic server
  error; a status from 400 to 499 gives the credential-mismatch error, whatever the decoder
  would say of the body; a status below 400 gives the access token read from the decoded
  body.
\<close>

theorem GetAccessToken_status_mapping:
  assumes "post (baseURL @ ''/api/v1/sessions'') ''application/json''
             (sessions_post_data email password otp) = HttpResponse status body"
  shows "(status \<ge> 500 \<longrightarrow>
            GetAccessToken baseURL post decode email password otp =
              ('''', Some (ErrorString ''An unknown server error occured, please try again'')))
       \<and> (400 \<le> status \<and> status < 500 \<longrightarrow>
            GetAccessToken baseURL post decode email password otp =
              ('''', Some (ErrorString ''Incorrect email and password combination'')))
       \<and> (status < 400 \<longrightarrow>
            GetAccessToken baseURL post decode email password otp =
              (access_token_of (fst (decode body)), None))"
  using assms by (simp add: GetAccessToken_def)

theorem GetAccessToken_status_mapping_witness:
  "GetAccessToken ''https://api.example'' (\<lambda>url ct b. HttpResponse 503 ''oops'')
     (\<lambda>b. (Map.empty, Some (DecodeError ''invalid character''))) ''a@b.c'' ''pw'' '''' =
     ('''', Some (ErrorString ''An unknown server error occured, please try again''))
   \<and> GetAccessToken ''https://api.example'' (\<lambda>url ct b. HttpResponse 401 ''denied'')
     (\<lambda>b. (Map.empty, Some (DecodeError ''invalid character''))) ''a@b.c'' ''pw'' '''' =
     ('''', Some (ErrorString ''Incorrect email and password combination''))
   \<and> GetAccessToken ''https://api.example'' (\<lambda>url ct b. HttpResponse 200 ''{...}'')
     (\<lambda>b. ([''data'' \<mapsto> [''attributes'' \<mapsto> [''access_token'' \<mapsto> ''secret'']]], None))
     ''a@b.c'' ''pw'' '''' = (''secret'', None)"
proof -
  let ?d1 = "\<lambda>b::string. (Map.empty :: token_map, Some (DecodeError ''invalid character''))"
  let ?d2 = "\<lambda>b::string.
    ([''data'' \<mapsto> [''attributes'' \<mapsto> [''access_token'' \<mapsto> ''secret'']]] :: token_map,
     None :: error option)"
  have a: "GetAccessToken ''https://api.example'' (\<lambda>url ct b. HttpResponse 503 ''oops'')
      ?d1 ''a@b.c'' ''pw'' '''' =
      ('''', Some (ErrorString ''An unknown server error occured, please try again''))"
    using GetAccessToken_status_mapping
      [where post = "\<lambda>url ct b. HttpResponse 503 ''oops''" and status = 503
         and body = "''oops''" and decode = ?d1 and baseURL = "''https://api.example''"
         and email = "''a@b.c''" and password = "''pw''" and otp = "''''"]
    by simp
  have b: "GetAccessToken ''https://api.example'' (\<lambda>url ct b. HttpResponse 401 ''denied'')
      ?d1 ''a@b.c'' ''pw'' '''' =
      ('''', Some (ErrorString ''Incorrect email and password combination''))"
    using GetAccessToken_status_mapping
      [where post = "\<lambda>url ct b. HttpResponse 401 ''denied''" and status = 401
         and body = "''denied''" and decode = ?d1 and baseURL = "''https://api.example''"
         and email = "''a@b.c''" and password = "''pw''" and otp = "''''"]
    by simp
  have c: "GetAccessToken ''https://api.example'' (\<lambda>url ct b. HttpResponse 200 ''{...}'')
      ?d2 ''a@b.c'' ''pw'' '''' = (''secret'', None)"
    using GetAccessToken_status_mapping
      [where post = "\<lambda>url ct b. HttpResponse 200 ''{...}''" and status = 200
         and body = "''{...}''" and decode = ?d2 and baseURL = "''https://api.example''"
         and email = "''a@b.c''" and password = "''pw''" and otp = "''''"]
    by (simp add: access_token_of_def)
  from a b c show ?thesis by simp
qed

text \<open>
  C5. An optional parameter that the caller omits (a nil \<open>username\<close> or \<open>valid_hours\<close> of
  \<open>IssueSSHCertificate\<close>, an empty \<open>region\<close> of \<open>CreateWireGuardPeer\<close>) has no entry in the
  input map; one that the caller provides is bound to the provided value.
\<close>

theorem optional_parameters_omitted:
  "(\<exists>r m. IssueSSHCertificate_request (Some org) email username valid_hours = Returns r
          \<and> req_vars r ''input'' = Some (VMap m)
          \<and> (case username of
                None \<Rightarrow> m ''username'' = None
              | Some u \<Rightarrow> m ''username'' = Some (VString u))
          \<and> (case valid_hours of
                None \<Rightarrow> m ''validHours'' = None
              | Some h \<Rightarrow> m ''validHours'' = Some (VInt h)))
   \<and> (\<exists>r m. CreateWireGuardPeer_request getenv (Some org) region name pubkey = Returns r
          \<and> req_vars r ''input'' = Some (VMap m)
          \<and> m ''region'' = (if region = '''' then None else Some (VString region)))"
  by (auto simp: IssueSSHCertificate_request_def CreateWireGuardPeer_request_def
                 req_vars_Var Let_def split: option.splits)

text \<open>
  C6, as the code has it. \<open>CreateWireGuardPeer\<close> is the only operation whose request
  depends on the environment; its input always carries the boolean \<open>nats\<close>, which is true
  exactly when \<open>WG_NATS\<close> is not empty. This is not the only conditional construction:
  other operations branch on their arguments (see the counterexample), but only inside the
  input object, and every operation binds the same variable names whatever its arguments
  and its environment.
\<close>

theorem environment_flag_only_in_CreateWireGuardPeer:
  "(operation_of c \<noteq> Op_CreateWireGuardPeer \<longrightarrow> request_of env1 c = request_of env2 c)
   \<and> (\<exists>r m. request_of env (Call_CreateWireGuardPeer ctx (Some org) region name pubkey)
               = Returns r
          \<and> req_vars r ''input'' = Some (VMap m)
          \<and> m ''nats'' = Some (VBool (env ''WG_NATS'' \<noteq> '''')))
   \<and> (operation_of c1 = operation_of c2 \<longrightarrow> request_of env1 c1 = Returns r1
        \<longrightarrow> request_of env2 c2 = Returns r2 \<longrightarrow> dom (req_vars r1) = dom (req_vars r2))"
proof (intro conjI impI)
  assume "operation_of c \<noteq> Op_CreateWireGuardPeer"
  then show "request_of env1 c = request_of env2 c"
    by (rule request_environment)
next
  show "\<exists>r m. request_of env (Call_CreateWireGuardPeer ctx (Some org) region name pubkey)
               = Returns r
          \<and> req_vars r ''input'' = Some (VMap m)
          \<and> m ''nats'' = Some (VBool (env ''WG_NATS'' \<noteq> ''''))"
    by (simp add: CreateWireGuardPeer_request_def req_vars_Var Let_def)
next
  assume a: "operation_of c1 = operation_of c2" "request_of env1 c1 = Returns r1"
    "request_of env2 c2 = Returns r2"
  obtain names where "\<forall>getenv c r. request_of getenv c = Returns r
      \<longrightarrow> dom (req_vars r) = names (operation_of c)"
    using request_variable_names by blast
  then have "dom (req_vars r1) = names (operation_of c1)"
    and "dom (req_vars r2) = names (operation_of c2)"
    using a(2,3) by blast+
  then show "dom (req_vars r1) = dom (req_vars r2)"
    using a(1) by simp
qed

theorem environment_flag_only_in_CreateWireGuardPeer_witness:
  "request_of (\<lambda>v. '''') (Call_IssueSSHCertificate Background
       (Some \<lparr>Organization_ID = ''o1'', Organization_Name = ''Acme'', Organization_Slug = ''acme''\<rparr>)
       ''a@b.c'' None None)
     = request_of (\<lambda>v. ''1'') (Call_IssueSSHCertificate Background
       (Some \<lparr>Organization_ID = ''o1'', Organization_Name = ''Acme'', Organization_Slug = ''acme''\<rparr>)
       ''a@b.c'' None None)
   \<and> dom (req_vars (GetApp_request ''alpha'')) = dom (req_vars (GetApp_request ''beta''))
   \<and> (\<exists>r m. request_of (\<lambda>v. ''1'')
              (Call_CreateWireGuardPeer Background
                 (Some \<lparr>Organization_ID = ''o1'', Organization_Name = ''Acme'',
                        Organization_Slug = ''acme''\<rparr>) ''ams'' ''laptop'' ''key'') = Returns r
          \<and> req_vars r ''input'' = Some (VMap m)
          \<and> m ''nats'' = Some (VBool True))"
proof -
  let ?org = "\<lparr>Organization_ID = ''o1'', Organization_Name = ''Acme'',
                Organization_Slug = ''acme''\<rparr>"
  let ?c = "Call_IssueSSHCertificate Background (Some ?org) ''a@b.c'' None None"
  note t = environment_flag_only_in_CreateWireGuardPeer
             [where c = ?c and ?env1.0 = "\<lambda>v. ''''" and ?env2.0 = "\<lambda>v. ''1''"
                and ?c1.0 = "Call_GetApp ''alpha''" and ?c2.0 = "Call_GetApp ''beta''"
                and ?r1.0 = "GetApp_request ''alpha''" and ?r2.0 = "GetApp_request ''beta''"]
  have h1: "operation_of ?c \<noteq> Op_CreateWireGuardPeer" by simp
  have h2: "operation_of (Call_GetApp ''alpha'') = operation_of (Call_GetApp ''beta'')" by simp
  have h3: "request_of (\<lambda>v. '''') (Call_GetApp ''alpha'') = Returns (GetApp_request ''alpha'')"
    by simp
  have h4: "request_of (\<lambda>v. ''1'') (Call_GetApp ''beta'') = Returns (GetApp_request ''beta'')"
    by simp
  note u = environment_flag_only_in_CreateWireGuardPeer
             [where env = "\<lambda>v. ''1''" and ctx = Background and org = ?org
                and region = "''ams''" and name = "''laptop''" and pubkey = "''key''",
              THEN conjunct2, THEN conjunct1]
  have "\<exists>r m. request_of (\<lambda>v. ''1'')
              (Call_CreateWireGuardPeer Background (Some ?org) ''ams'' ''laptop'' ''key'')
              = Returns r
          \<and> req_vars r ''input'' = Some (VMap m)
          \<and> m ''nats'' = Some (VBool True)"
    using u by simp
  then show ?thesis
    using t h1 h2 h3 h4 by blast
qed

text \<open>
  The claim C6 as it is stated fails. \<open>DeleteDelegatedWireGuardToken\<close> is not
  \<open>CreateWireGuardPeer\<close> and reads no environment, yet its request construction branches:
  given the same token, it binds \<open>token\<close> only when the name is nil, and \<open>name\<close> otherwise.
  And with \<open>WG_NATS\<close> unset \<open>CreateWireGuardPeer\<close> still binds \<open>nats\<close>, to false: the flag
  changes the value of the variable, it does not add it.
\<close>

theorem only_conditional_behaviour_counterexample:
  "operation_of (Call_DeleteDelegatedWireGuardToken Background
       (Some \<lparr>Organization_ID = ''o1'', Organization_Name = ''Acme'', Organization_Slug = ''acme''\<rparr>)
       (Some ''laptop'') (Some ''tok'')) \<noteq> Op_CreateWireGuardPeer
   \<and> input_of (request_of (\<lambda>v. '''') (Call_DeleteDelegatedWireGuardToken Background
       (Some \<lparr>Organization_ID = ''o1'', Organization_Name = ''Acme'', Organization_Slug = ''acme''\<rparr>)
       (Some ''laptop'') (Some ''tok''))) ''token'' = None
   \<and> input_of (request_of (\<lambda>v. '''') (Call_DeleteDelegatedWireGuardToken Background
       (Some \<lparr>Organization_ID = ''o1'', Organization_Name = ''Acme'', Organization_Slug = ''acme''\<rparr>)
       (Some ''laptop'') (Some ''tok''))) ''name'' = Some (VString ''laptop'')
   \<and> input_of (request_of (\<lambda>v. '''') (Call_DeleteDelegatedWireGuardToken Background
       (Some \<lparr>Organization_ID = ''o1'', Organization_Name = ''Acme'', Organization_Slug = ''acme''\<rparr>)
       None (Some ''tok''))) ''token'' = Some (VString ''tok'')
   \<and> input_of (request_of (\<lambda>v. '''') (Call_DeleteDelegatedWireGuardToken Background
       (Some \<lparr>Organization_ID = ''o1'', Organization_Name = ''Acme'', Organization_Slug = ''acme''\<rparr>)
       None (Some ''tok''))) ''name'' = None
   \<and> input_of (request_of (\<lambda>v. '''') (Call_CreateWireGuardPeer Background
       (Some \<lparr>Organization_ID = ''o1'', Organization_Name = ''Acme'', Organization_Slug = ''acme''\<rparr>)
       ''ams'' ''laptop'' ''key'')) ''nats'' = Some (VBool False)"
  by (simp add: input_of_def DeleteDelegatedWireGuardToken_request_def
                CreateWireGuardPeer_request_def req_vars_Var Let_def)

text \<open>
  C7. The document a call transmits depends on the operation only: two calls of the same
  operation, with any arguments and in any environments, build requests with the same
  compacted document.
\<close>

theorem document_independent_of_inputs:
  assumes "operation_of c1 = operation_of c2"
    and "request_of env1 c1 = Returns r1"
    and "request_of env2 c2 = Returns r2"
  shows "req_q r1 = req_q r2"
proof -
  obtain doc where "\<forall>getenv c r. request_of getenv c = Returns r
      \<longrightarrow> req_q r = doc (operation_of c)"
    using request_document by blast
  then have "req_q r1 = doc (operation_of c1)" and "req_q r2 = doc (operation_of c2)"
    using assms(2,3) by blast+
  then show ?thesis using assms(1) by simp
qed

theorem document_independent_of_inputs_witness:
  "req_q (GetApp_request ''alpha'') = req_q (GetApp_request ''beta'')
   \<and> (\<exists>r1 r2.
        request_of (\<lambda>v. '''') (Call_CreateWireGuardPeer Background
          (Some \<lparr>Organization_ID = ''o1'', Organization_Name = ''Acme'',
                 Organization_Slug = ''acme''\<rparr>) '''' ''laptop'' ''key'') = Returns r1
      \<and> request_of (\<lambda>v. ''1'') (Call_CreateWireGuardPeer (Context 7)
          (Some \<lparr>Organization_ID = ''o2'', Organization_Name = ''Other'',
                 Organization_Slug = ''other''\<rparr>) ''ams'' ''phone'' ''key2'') = Returns r2
      \<and> req_q r1 = req_q r2)"
proof -
  have a: "req_q (GetApp_request ''alpha'') = req_q (GetApp_request ''beta'')"
    using document_independent_of_inputs
      [where ?c1.0 = "Call_GetApp ''alpha''" and ?c2.0 = "Call_GetApp ''beta''"
         and ?env1.0 = "\<lambda>v. ''''" and ?env2.0 = "\<lambda>v. ''1''"
         and ?r1.0 = "GetApp_request ''alpha''" and ?r2.0 = "GetApp_request ''beta''"]
    by simp
  let ?c1 = "Call_CreateWireGuardPeer Background
          (Some \<lparr>Organization_ID = ''o1'', Organization_Name = ''Acme'',
                 Organization_Slug = ''acme''\<rparr>) '''' ''laptop'' ''key''"
  let ?c2 = "Call_CreateWireGuardPeer (Context 7)
          (Some \<lparr>Organization_ID = ''o2'', Organization_Name = ''Other'',
                 Organization_Slug = ''other''\<rparr>) ''ams'' ''phone'' ''key2''"
  obtain r1 where r1: "request_of (\<lambda>v. '''') ?c1 = Returns r1"
    by (simp add: CreateWireGuardPeer_request_def Let_def)
  obtain r2 where r2: "request_of (\<lambda>v. ''1'') ?c2 = Returns r2"
    by (simp add: CreateWireGuardPeer_request_def Let_def)
  have "operation_of ?c1 = operation_of ?c2" by simp
  then have "req_q r1 = req_q r2"
    using document_independent_of_inputs [OF _ r1 r2] by blast
  then show ?thesis using a r1 r2 by blast
qed

text \<open>
  C8, as the code has it. The string \<open>NewRequest\<close> uses is the input with the surrounding
  white space in the sense of \<open>strings.TrimSpace\<close> removed (a prefix and a suffix made of
  encoded white-space code points, the vertical tab among them, up to the first and the
  last rune that is none), and then with every maximal run of the characters tab, line
  feed, form feed, carriage return and space replaced by a single space. The normalisation
  is idempotent, and its result neither starts nor ends with white space.
\<close>

theorem NewRequest_normalises:
  "req_q (NewRequest q) = spec_collapse perl_space (TrimSpace q)
   \<and> (\<exists>ls rs. set ls \<subseteq> set white_space_runes \<and> set rs \<subseteq> set white_space_runes
          \<and> q = concat ls @ TrimSpace q @ concat rs)
   \<and> leading_space (TrimSpace q) = None \<and> trailing_space (TrimSpace q) = None
   \<and> compactQueryString (compactQueryString q) = compactQueryString q
   \<and> leading_space (req_q (NewRequest q)) = None
   \<and> trailing_space (req_q (NewRequest q)) = None"
proof -
  have "leading_space (compactQueryString q) = None"
    and "trailing_space (compactQueryString q) = None"
    unfolding compactQueryString_def
    by (intro leading_space_collapse trailing_space_collapse TrimSpace_bare)+
  then show ?thesis
    using TrimSpace_decompose [of q] TrimSpace_bare [of q] compact_idem [of q]
    by (simp add: req_q_NewRequest compactQueryString_def collapse_refines_spec)
qed

text \<open>
  The claim C8 as it is stated fails for each of the two classes of white space the code
  uses. With the class of the regular expression, a leading vertical tab is no white space,
  yet it is trimmed; with the ASCII white space of \<open>TrimSpace\<close>, an inner vertical tab is
  a run of white space, yet it is not replaced by a space.
\<close>

theorem compactQueryString_vertical_tab_counterexample:
  "compactQueryString [CHR 0x0B, CHR ''a''] = ''a''
   \<and> spec_normalize perl_space [CHR 0x0B, CHR ''a''] = [CHR 0x0B, CHR ''a'']
   \<and> compactQueryString [CHR ''a'', CHR 0x0B, CHR ''b''] = [CHR ''a'', CHR 0x0B, CHR ''b'']
   \<and> spec_normalize asciiSpace [CHR ''a'', CHR 0x0B, CHR ''b''] = ''a b''"
  by (simp add: compactQueryString_def TrimSpace_def TrimLeft.simps TrimRight.simps
                leading_space_def trailing_space_def white_space_runes_def perl_space_def
                spec_normalize_def spec_trim_def spec_collapse_def asciiSpace_def)

text \<open>
  C9. When the transport call succeeds, \<open>GetApps\<close> returns the list under \<open>apps.nodes\<close> of
  the envelope as it is: the same apps, as many, in the same order.
\<close>

theorem GetApps_returns_nodes:
  assumes "Run c GetApps_request = (data, None)"
  shows "GetApps c = Returns (Nodes (Query_Apps data))"
  using assms by (simp add: GetApps_def)

theorem GetApps_returns_nodes_witness:
  "GetApps
     \<lparr>Client_accessToken = ''token'',
      Client_Run = (\<lambda>ctx req.
        ((zero_Query :: (unit, unit) Query)
           \<lparr>Query_Apps :=
              \<lparr>Nodes = [zero_App\<lparr>App_ID := ''1'', App_Name := ''first''\<rparr>,
                        zero_App\<lparr>App_ID := ''2'', App_Name := ''second''\<rparr>]\<rparr>\<rparr>, None))\<rparr>
   = Returns [zero_App\<lparr>App_ID := ''1'', App_Name := ''first''\<rparr>,
              zero_App\<lparr>App_ID := ''2'', App_Name := ''second''\<rparr>]"
proof -
  let ?data = "(zero_Query :: (unit, unit) Query)
           \<lparr>Query_Apps :=
              \<lparr>Nodes = [zero_App\<lparr>App_ID := ''1'', App_Name := ''first''\<rparr>,
                        zero_App\<lparr>App_ID := ''2'', App_Name := ''second''\<rparr>]\<rparr>\<rparr>"
  let ?c = "\<lparr>Client_accessToken = ''token'', Client_Run = (\<lambda>ctx req. (?data, None))\<rparr>"
  have "Run ?c GetApps_request = (?data, None)"
    by (simp add: Run_def RunWithContext_def)
  from GetApps_returns_nodes [OF this] show ?thesis by simp
qed

text \<open>
  C10, as the code has it. For a response with a status below 400, \<open>GetAccessToken\<close>
  returns a nil error and, as the token, \<open>data.attributes.access_token\<close> of the map the
  decoder leaves, whatever error the decoder returns: the decode error never reaches the
  caller. So the call returns the empty string with a nil error when the decoded map lacks
  the access token, and, with the decoder of the standard library, when the body has no
  complete first JSON value.
\<close>

theorem GetAccessToken_ignores_decode_error:
  assumes "post (baseURL @ ''/api/v1/sessions'') ''application/json''
             (sessions_post_data email password otp) = HttpResponse status body"
    and "status < 400"
  shows "GetAccessToken baseURL post decode email password otp
           = (access_token_of (fst (decode body)), None)
       \<and> (lacks_access_token (fst (decode body)) \<longrightarrow>
            GetAccessToken baseURL post decode email password otp = ('''', None))
       \<and> (readValue scanner_reset builder_reset body = Inl re \<longrightarrow>
            GetAccessToken baseURL post Decode email password otp = ('''', None))"
proof (intro conjI impI)
  show a: "\<And>decode. GetAccessToken baseURL post decode email password otp
           = (access_token_of (fst (decode body)), None)"
    using assms by (simp add: GetAccessToken_def)
  show "GetAccessToken baseURL post decode email password otp = ('''', None)"
    if "lacks_access_token (fst (decode body))"
    using that a [of decode]
    by (auto simp: access_token_of_def lacks_access_token_def split: option.splits)
  show "GetAccessToken baseURL post Decode email password otp = ('''', None)"
    if "readValue scanner_reset builder_reset body = Inl re"
  proof -
    have "fst (Decode body) = Map.empty"
      using that by (cases re) (simp_all add: Decode_def)
    then show ?thesis
      using a [of Decode] by (simp add: access_token_of_def)
  qed
qed

theorem GetAccessToken_ignores_decode_error_witness:
  \<open>GetAccessToken ''https://api.example'' (\<lambda>url ct b. HttpResponse 200 ''<html>'')
     Decode ''a@b.c'' ''pw'' '''' = ('''', None)
   \<and> snd (Decode ''<html>'') = Some (DecodeError ''json: syntax error'')
   \<and> GetAccessToken ''https://api.example'' (\<lambda>url ct b. HttpResponse 200 ''{"data":{}}'')
     Decode ''a@b.c'' ''pw'' '''' = ('''', None)\<close>
proof -
  have s: "(200::int) < 400" by simp
  have r: "readValue scanner_reset builder_reset ''<html>'' = Inl SyntaxError"
    by code_simp
  note t1 = GetAccessToken_ignores_decode_error
      [where post = "\<lambda>url ct b. HttpResponse 200 ''<html>''" and status = 200
         and body = "''<html>''" and baseURL = "''https://api.example''"
         and email = "''a@b.c''" and password = "''pw''" and otp = "''''"
         and re = SyntaxError, OF refl s]
  have a: "GetAccessToken ''https://api.example'' (\<lambda>url ct b. HttpResponse 200 ''<html>'')
      Decode ''a@b.c'' ''pw'' '''' = ('''', None)"
    using t1 r by blast
  have e: "snd (Decode ''<html>'') = Some (DecodeError ''json: syntax error'')"
    by (simp only: Decode_def r) simp
  have l: \<open>lacks_access_token (fst (Decode ''{"data":{}}''))\<close>
    by code_simp
  note t2 = GetAccessToken_ignores_decode_error
      [where post = \<open>\<lambda>url ct b. HttpResponse 200 ''{"data":{}}''\<close> and status = 200
         and body = \<open>''{"data":{}}''\<close> and baseURL = "''https://api.example''"
         and email = "''a@b.c''" and password = "''pw''" and otp = "''''"
         and decode = Decode, OF refl s]
  have b: \<open>GetAccessToken ''https://api.example'' (\<lambda>url ct b. HttpResponse 200 ''{"data":{}}'')
      Decode ''a@b.c'' ''pw'' '''' = ('''', None)\<close>
    using t2 l by blast
  from a e b show ?thesis by blast
qed

text \<open>
  The claim C10 as it is stated fails. The body below is not valid JSON: a JSON object is
  followed by other data. The decoder reads the first JSON value only, so with a status of
  200 \<open>GetAccessToken\<close> returns the token of that object and a nil error, not the empty
  string.
\<close>

theorem GetAccessToken_invalid_JSON_counterexample:
  \<open>\<not> Valid ''{"data":{"attributes":{"access_token":"secret"}}} <html>''
   \<and> GetAccessToken ''https://api.example''
       (\<lambda>url ct b. HttpResponse 200
          ''{"data":{"attributes":{"access_token":"secret"}}} <html>'')
       Decode ''a@b.c'' ''pw'' '''' = (''secret'', None)\<close>
proof -
  have v: \<open>\<not> Valid ''{"data":{"attributes":{"access_token":"secret"}}} <html>''\<close>
    by code_simp
  have d: \<open>access_token_of
      (fst (Decode ''{"data":{"attributes":{"access_token":"secret"}}} <html>'')) = ''secret''\<close>
    by code_simp
  show ?thesis
    using v d by (simp add: GetAccessToken_def)
qed

end
